theory Spec2Isabelle
  imports Main "HOL-Library.Word"
begin

unbundle bit_operations_syntax

section \<open>The syscall filter of \<open>init_seccomp\<close>\<close>

subsection \<open>Classic BPF as seccomp runs it\<close>

text \<open>
  \<open>struct sock_filter\<close> of \<open>linux/filter.h\<close> and the two macros that build its
  entries. The opcode constants are those of \<open>linux/bpf_common.h\<close>.
\<close>

record sock_filter =
  code :: "16 word"
  jt :: "8 word"
  jf :: "8 word"
  k :: "32 word"

definition BPF_STMT :: "16 word \<Rightarrow> 32 word \<Rightarrow> sock_filter" where
  "BPF_STMT c kk = \<lparr>code = c, jt = 0, jf = 0, k = kk\<rparr>"

definition BPF_JUMP :: "16 word \<Rightarrow> 32 word \<Rightarrow> 8 word \<Rightarrow> 8 word \<Rightarrow> sock_filter" where
  "BPF_JUMP c kk t f = \<lparr>code = c, jt = t, jf = f, k = kk\<rparr>"

definition BPF_LD :: "16 word" where "BPF_LD = 0x00"
definition BPF_JMP :: "16 word" where "BPF_JMP = 0x05"
definition BPF_RET :: "16 word" where "BPF_RET = 0x06"
definition BPF_W :: "16 word" where "BPF_W = 0x00"
definition BPF_ABS :: "16 word" where "BPF_ABS = 0x20"
definition BPF_JEQ :: "16 word" where "BPF_JEQ = 0x10"
definition BPF_JGT :: "16 word" where "BPF_JGT = 0x20"
definition BPF_JGE :: "16 word" where "BPF_JGE = 0x30"
definition BPF_K :: "16 word" where "BPF_K = 0x00"

definition SECCOMP_RET_TRAP :: "32 word" where "SECCOMP_RET_TRAP = 0x00030000"
definition SECCOMP_RET_ALLOW :: "32 word" where "SECCOMP_RET_ALLOW = 0x7fff0000"

definition AUDIT_ARCH_64BIT :: "32 word" where "AUDIT_ARCH_64BIT = 0x80000000"
definition AUDIT_ARCH_LE :: "32 word" where "AUDIT_ARCH_LE = 0x40000000"
definition EM_ARM :: "32 word" where "EM_ARM = 40"
definition EM_AARCH64 :: "32 word" where "EM_AARCH64 = 183"
definition AUDIT_ARCH_AARCH64 :: "32 word" where
  "AUDIT_ARCH_AARCH64 = (EM_AARCH64 OR AUDIT_ARCH_64BIT OR AUDIT_ARCH_LE)"
definition AUDIT_ARCH_ARM :: "32 word" where
  "AUDIT_ARCH_ARM = (EM_ARM OR AUDIT_ARCH_LE)"

text \<open>
  \<open>struct seccomp_data\<close>: what the kernel hands to the filter at each syscall. The
  fields lie at byte offsets 0, 4, 8 and 16; a 32-bit load at offset 8 reads the low half
  of the instruction pointer and one at offset 12 its high half (little endian).
\<close>

record seccomp_data =
  nr :: "32 word"
  arch :: "32 word"
  instruction_pointer :: "64 word"
  args :: "64 word list"

definition offsetof_nr :: "32 word" where "offsetof_nr = 0"
definition offsetof_arch :: "32 word" where "offsetof_arch = 4"
definition offsetof_instruction_pointer :: "32 word" where "offsetof_instruction_pointer = 8"

definition lo32 :: "64 word \<Rightarrow> 32 word" where
  "lo32 w = ucast w"

definition hi32 :: "64 word \<Rightarrow> 32 word" where
  "hi32 w = ucast (drop_bit 32 w)"

definition seccomp_load :: "seccomp_data \<Rightarrow> 32 word \<Rightarrow> 32 word option" where
  "seccomp_load d off =
     (if off = 0 then Some (nr d)
      else if off = 4 then Some (arch d)
      else if off = 8 then Some (lo32 (instruction_pointer d))
      else if off = 12 then Some (hi32 (instruction_pointer d))
      else if 16 \<le> off \<and> off < 64 \<and> off AND 3 = 0
              \<and> unat (drop_bit 3 (off - 16)) < length (args d) then
        (let a = args d ! unat (drop_bit 3 (off - 16))
         in Some (if off AND 4 = 0 then lo32 a else hi32 a))
      else None)"

text \<open>
  The interpreter, for the instructions the filter uses: absolute word load, the three
  conditional jumps against the constant, and return of the constant. A jump skips
  \<open>jt\<close> or \<open>jf\<close> instructions counted from the next one; jumps only go forward, so
  the run is a recursion on the rest of the program. \<open>None\<close> means that no return was
  reached inside the given instructions: control has left them at the far end (or an
  instruction outside the subset was met).
\<close>

fun bpf_run :: "seccomp_data \<Rightarrow> 32 word \<Rightarrow> sock_filter list \<Rightarrow> 32 word option" where
  "bpf_run d A [] = None"
| "bpf_run d A (i # p) =
     (if code i = (BPF_LD OR BPF_W OR BPF_ABS) then
        (case seccomp_load d (k i) of None \<Rightarrow> None | Some v \<Rightarrow> bpf_run d v p)
      else if code i = (BPF_JMP OR BPF_JEQ OR BPF_K) then
        bpf_run d A (drop (unat (if A = k i then jt i else jf i)) p)
      else if code i = (BPF_JMP OR BPF_JGT OR BPF_K) then
        bpf_run d A (drop (unat (if A > k i then jt i else jf i)) p)
      else if code i = (BPF_JMP OR BPF_JGE OR BPF_K) then
        bpf_run d A (drop (unat (if A \<ge> k i then jt i else jf i)) p)
      else if code i = (BPF_RET OR BPF_K) then Some (k i)
      else None)"

definition seccomp_run :: "sock_filter list \<Rightarrow> seccomp_data \<Rightarrow> 32 word option" where
  "seccomp_run prog d = bpf_run d 0 prog"

subsection \<open>The filter program\<close>

text \<open>
  The syscall numbers \<open>__NR_...\<close> come from \<open>asm/unistd.h\<close>, which is not part of the
  sources: the filter takes the numbering \<open>NR\<close> as a parameter. \<open>syscall\<close> lists the
  names the filter mentions.
\<close>

datatype syscall =
    SYS_openat
  | SYS_readlinkat
  | SYS_faccessat
  | SYS_unlinkat
  | SYS_connect
  | SYS_execve
  | SYS_inotify_add_watch
  | SYS_mkdirat
  | SYS_getdents64
  | SYS_ptrace
  | SYS_clock_settime
  | SYS_clock_gettime
  | SYS_gettimeofday
  | SYS_settimeofday
  | SYS_open
  | SYS_readlink
  | SYS_access
  | SYS_getuid32
  | SYS_getgid32
  | SYS_fstat
  | SYS_fstat64
  | SYS_statfs64
  | SYS_uname
  | SYS_ioprio_set
  | SYS_sysinfo
  | SYS_socket
  | SYS_ioctl
  | SYS_prctl
  | SYS_geteuid32
  | SYS_getegid32
  | SYS_getresuid32
  | SYS_getresgid32
  | SYS_fstatat64
  | SYS_newfstatat
  | SYS_getuid
  | SYS_getgid
  | SYS_geteuid
  | SYS_getegid
  | SYS_getresuid
  | SYS_getresgid

text \<open>
  \<open>struct linker_maps_addr_t\<close>: the record at \<open>LINKER_MAPS_ADDR\<close> that the macros
  \<open>PRELINKER_ADDR\<close>, ..., \<open>LINKER_MAPS_LAST_ADDR\<close> read and write. Its fields are
  \<open>uintptr_t\<close>, here a word of the build's pointer width \<open>'a\<close>.
\<close>

record (overloaded) 'a linker_maps_addr_t =
  prelinker_addr :: "'a word"
  prelinker_size :: "'a word"
  host_linker_addr :: "'a word"
  host_linker_size :: "'a word"
  guest_linker_addr :: "'a word"
  guest_linker_size :: "'a word"
  guest_libc_addr :: "'a word"
  guest_libc_size :: "'a word"
  host_libs_addr :: "'a word"
  host_libs_size :: "'a word"
  linker_maps_last_addr :: "'a word"

text \<open>
  The array \<open>filter[]\<close> of \<open>init_seccomp\<close>, in the order of the source and cut at its
  comments. First the build without \<open>__LP64__\<close> (lines 507 to 529).
\<close>

definition filter_arch32 :: "sock_filter list" where
  "filter_arch32 =
     [BPF_STMT (BPF_LD OR BPF_W OR BPF_ABS) offsetof_arch,
      BPF_JUMP (BPF_JMP OR BPF_JEQ OR BPF_K) AUDIT_ARCH_ARM 1 0,
      BPF_STMT (BPF_RET OR BPF_K) SECCOMP_RET_ALLOW]"

definition filter_low32 :: "sock_filter list" where
  "filter_low32 =
     [BPF_STMT (BPF_LD OR BPF_W OR BPF_ABS) offsetof_instruction_pointer,
      BPF_JUMP (BPF_JMP OR BPF_JGE OR BPF_K) 0x400000 1 0,
      BPF_STMT (BPF_RET OR BPF_K) SECCOMP_RET_ALLOW]"

definition filter_window32 :: "32 linker_maps_addr_t \<Rightarrow> sock_filter list" where
  "filter_window32 maps =
     [BPF_STMT (BPF_LD OR BPF_W OR BPF_ABS) offsetof_instruction_pointer,
      BPF_JUMP (BPF_JMP OR BPF_JGE OR BPF_K) (prelinker_addr maps) 0 2,
      BPF_JUMP (BPF_JMP OR BPF_JGE OR BPF_K) (linker_maps_last_addr maps) 1 0,
      BPF_STMT (BPF_RET OR BPF_K) SECCOMP_RET_ALLOW]"

text \<open>The build with \<open>__LP64__\<close> (lines 533 to 578).\<close>

definition filter_arch64 :: "sock_filter list" where
  "filter_arch64 =
     [BPF_STMT (BPF_LD OR BPF_W OR BPF_ABS) offsetof_arch,
      BPF_JUMP (BPF_JMP OR BPF_JEQ OR BPF_K) AUDIT_ARCH_AARCH64 1 0,
      BPF_STMT (BPF_RET OR BPF_K) SECCOMP_RET_ALLOW]"

definition filter_low64 :: "sock_filter list" where
  "filter_low64 =
     [BPF_STMT (BPF_LD OR BPF_W OR BPF_ABS) (offsetof_instruction_pointer + 4),
      BPF_JUMP (BPF_JMP OR BPF_JEQ OR BPF_K) 0 0 3,
      BPF_STMT (BPF_LD OR BPF_W OR BPF_ABS) offsetof_instruction_pointer,
      BPF_JUMP (BPF_JMP OR BPF_JGE OR BPF_K) 0x500000 1 0,
      BPF_STMT (BPF_RET OR BPF_K) SECCOMP_RET_ALLOW]"

definition filter_window64 :: "64 linker_maps_addr_t \<Rightarrow> sock_filter list" where
  "filter_window64 maps =
     [BPF_STMT (BPF_LD OR BPF_W OR BPF_ABS) (offsetof_instruction_pointer + 4),
      BPF_JUMP (BPF_JMP OR BPF_JGT OR BPF_K) (ucast (drop_bit 32 (prelinker_addr maps))) 3 0,
      BPF_JUMP (BPF_JMP OR BPF_JGE OR BPF_K) (ucast (drop_bit 32 (prelinker_addr maps))) 0 8,
      BPF_STMT (BPF_LD OR BPF_W OR BPF_ABS) offsetof_instruction_pointer,
      BPF_JUMP (BPF_JMP OR BPF_JGE OR BPF_K) (ucast (prelinker_addr maps AND 0xFFFFFFFF)) 0 6,
      BPF_STMT (BPF_LD OR BPF_W OR BPF_ABS) (offsetof_instruction_pointer + 4),
      BPF_JUMP (BPF_JMP OR BPF_JGT OR BPF_K) (ucast (drop_bit 32 (linker_maps_last_addr maps))) 4 0,
      BPF_JUMP (BPF_JMP OR BPF_JGE OR BPF_K) (ucast (drop_bit 32 (linker_maps_last_addr maps))) 0 3,
      BPF_STMT (BPF_LD OR BPF_W OR BPF_ABS) offsetof_instruction_pointer,
      BPF_JUMP (BPF_JMP OR BPF_JGE OR BPF_K) (ucast (linker_maps_last_addr maps AND 0xFFFFFFFF)) 1 0,
      BPF_STMT (BPF_RET OR BPF_K) SECCOMP_RET_ALLOW]"

text \<open>The syscall checks common to both builds (lines 584 to 642).\<close>

definition filter_syscalls :: "(syscall \<Rightarrow> 32 word) \<Rightarrow> sock_filter list" where
  "filter_syscalls NR =
     [BPF_STMT (BPF_LD OR BPF_W OR BPF_ABS) offsetof_nr,
      BPF_JUMP (BPF_JMP OR BPF_JEQ OR BPF_K) (NR SYS_openat) 0 1,
      BPF_STMT (BPF_RET OR BPF_K) SECCOMP_RET_TRAP,
      BPF_JUMP (BPF_JMP OR BPF_JEQ OR BPF_K) (NR SYS_readlinkat) 0 1,
      BPF_STMT (BPF_RET OR BPF_K) SECCOMP_RET_TRAP,
      BPF_JUMP (BPF_JMP OR BPF_JEQ OR BPF_K) (NR SYS_faccessat) 0 1,
      BPF_STMT (BPF_RET OR BPF_K) SECCOMP_RET_TRAP,
      BPF_JUMP (BPF_JMP OR BPF_JEQ OR BPF_K) (NR SYS_unlinkat) 0 1,
      BPF_STMT (BPF_RET OR BPF_K) SECCOMP_RET_TRAP,
      BPF_JUMP (BPF_JMP OR BPF_JEQ OR BPF_K) (NR SYS_connect) 0 1,
      BPF_STMT (BPF_RET OR BPF_K) SECCOMP_RET_TRAP,
      BPF_JUMP (BPF_JMP OR BPF_JEQ OR BPF_K) (NR SYS_execve) 0 1,
      BPF_STMT (BPF_RET OR BPF_K) SECCOMP_RET_TRAP,
      BPF_JUMP (BPF_JMP OR BPF_JEQ OR BPF_K) (NR SYS_inotify_add_watch) 0 1,
      BPF_STMT (BPF_RET OR BPF_K) SECCOMP_RET_TRAP,
      BPF_JUMP (BPF_JMP OR BPF_JEQ OR BPF_K) (NR SYS_mkdirat) 0 1,
      BPF_STMT (BPF_RET OR BPF_K) SECCOMP_RET_TRAP,
      BPF_JUMP (BPF_JMP OR BPF_JEQ OR BPF_K) (NR SYS_getdents64) 0 1,
      BPF_STMT (BPF_RET OR BPF_K) SECCOMP_RET_TRAP,
      BPF_JUMP (BPF_JMP OR BPF_JEQ OR BPF_K) (NR SYS_ptrace) 0 1,
      BPF_STMT (BPF_RET OR BPF_K) SECCOMP_RET_TRAP,
      BPF_JUMP (BPF_JMP OR BPF_JEQ OR BPF_K) (NR SYS_clock_settime) 0 1,
      BPF_STMT (BPF_RET OR BPF_K) SECCOMP_RET_TRAP,
      BPF_JUMP (BPF_JMP OR BPF_JEQ OR BPF_K) (NR SYS_clock_gettime) 0 1,
      BPF_STMT (BPF_RET OR BPF_K) SECCOMP_RET_TRAP,
      BPF_JUMP (BPF_JMP OR BPF_JEQ OR BPF_K) (NR SYS_gettimeofday) 0 1,
      BPF_STMT (BPF_RET OR BPF_K) SECCOMP_RET_TRAP,
      BPF_JUMP (BPF_JMP OR BPF_JEQ OR BPF_K) (NR SYS_settimeofday) 0 1,
      BPF_STMT (BPF_RET OR BPF_K) SECCOMP_RET_TRAP]"

text \<open>The checks of the 32-bit build only (lines 646 to 736), repetitions included.\<close>

definition filter_syscalls32 :: "(syscall \<Rightarrow> 32 word) \<Rightarrow> sock_filter list" where
  "filter_syscalls32 NR =
     [BPF_JUMP (BPF_JMP OR BPF_JEQ OR BPF_K) (NR SYS_open) 0 1,
      BPF_STMT (BPF_RET OR BPF_K) SECCOMP_RET_TRAP,
      BPF_JUMP (BPF_JMP OR BPF_JEQ OR BPF_K) (NR SYS_readlink) 0 1,
      BPF_STMT (BPF_RET OR BPF_K) SECCOMP_RET_TRAP,
      BPF_JUMP (BPF_JMP OR BPF_JEQ OR BPF_K) (NR SYS_access) 0 1,
      BPF_STMT (BPF_RET OR BPF_K) SECCOMP_RET_TRAP,
      BPF_JUMP (BPF_JMP OR BPF_JEQ OR BPF_K) (NR SYS_getuid32) 0 1,
      BPF_STMT (BPF_RET OR BPF_K) SECCOMP_RET_TRAP,
      BPF_JUMP (BPF_JMP OR BPF_JEQ OR BPF_K) (NR SYS_getgid32) 0 1,
      BPF_STMT (BPF_RET OR BPF_K) SECCOMP_RET_TRAP,
      BPF_JUMP (BPF_JMP OR BPF_JEQ OR BPF_K) (NR SYS_fstat) 0 1,
      BPF_STMT (BPF_RET OR BPF_K) SECCOMP_RET_TRAP,
      BPF_JUMP (BPF_JMP OR BPF_JEQ OR BPF_K) (NR SYS_fstat64) 0 1,
      BPF_STMT (BPF_RET OR BPF_K) SECCOMP_RET_TRAP,
      BPF_JUMP (BPF_JMP OR BPF_JEQ OR BPF_K) (NR SYS_statfs64) 0 1,
      BPF_STMT (BPF_RET OR BPF_K) SECCOMP_RET_TRAP,
      BPF_JUMP (BPF_JMP OR BPF_JEQ OR BPF_K) (NR SYS_uname) 0 1,
      BPF_STMT (BPF_RET OR BPF_K) SECCOMP_RET_TRAP,
      BPF_JUMP (BPF_JMP OR BPF_JEQ OR BPF_K) (NR SYS_ioprio_set) 0 1,
      BPF_STMT (BPF_RET OR BPF_K) SECCOMP_RET_TRAP,
      BPF_JUMP (BPF_JMP OR BPF_JEQ OR BPF_K) (NR SYS_sysinfo) 0 1,
      BPF_STMT (BPF_RET OR BPF_K) SECCOMP_RET_TRAP,
      BPF_JUMP (BPF_JMP OR BPF_JEQ OR BPF_K) (NR SYS_socket) 0 1,
      BPF_STMT (BPF_RET OR BPF_K) SECCOMP_RET_TRAP,
      BPF_JUMP (BPF_JMP OR BPF_JEQ OR BPF_K) (NR SYS_ioctl) 0 1,
      BPF_STMT (BPF_RET OR BPF_K) SECCOMP_RET_TRAP,
      BPF_JUMP (BPF_JMP OR BPF_JEQ OR BPF_K) (NR SYS_prctl) 0 1,
      BPF_STMT (BPF_RET OR BPF_K) SECCOMP_RET_TRAP,
      BPF_JUMP (BPF_JMP OR BPF_JEQ OR BPF_K) (NR SYS_getuid32) 0 1,
      BPF_STMT (BPF_RET OR BPF_K) SECCOMP_RET_TRAP,
      BPF_JUMP (BPF_JMP OR BPF_JEQ OR BPF_K) (NR SYS_getgid32) 0 1,
      BPF_STMT (BPF_RET OR BPF_K) SECCOMP_RET_TRAP,
      BPF_JUMP (BPF_JMP OR BPF_JEQ OR BPF_K) (NR SYS_geteuid32) 0 1,
      BPF_STMT (BPF_RET OR BPF_K) SECCOMP_RET_TRAP,
      BPF_JUMP (BPF_JMP OR BPF_JEQ OR BPF_K) (NR SYS_getegid32) 0 1,
      BPF_STMT (BPF_RET OR BPF_K) SECCOMP_RET_TRAP,
      BPF_JUMP (BPF_JMP OR BPF_JEQ OR BPF_K) (NR SYS_getresuid32) 0 1,
      BPF_STMT (BPF_RET OR BPF_K) SECCOMP_RET_TRAP,
      BPF_JUMP (BPF_JMP OR BPF_JEQ OR BPF_K) (NR SYS_getresgid32) 0 1,
      BPF_STMT (BPF_RET OR BPF_K) SECCOMP_RET_TRAP,
      BPF_JUMP (BPF_JMP OR BPF_JEQ OR BPF_K) (NR SYS_inotify_add_watch) 0 1,
      BPF_STMT (BPF_RET OR BPF_K) SECCOMP_RET_TRAP,
      BPF_JUMP (BPF_JMP OR BPF_JEQ OR BPF_K) (NR SYS_fstatat64) 0 1,
      BPF_STMT (BPF_RET OR BPF_K) SECCOMP_RET_TRAP]"

text \<open>The checks of the 64-bit build only (lines 739 to 766).\<close>

definition filter_syscalls64 :: "(syscall \<Rightarrow> 32 word) \<Rightarrow> sock_filter list" where
  "filter_syscalls64 NR =
     [BPF_JUMP (BPF_JMP OR BPF_JEQ OR BPF_K) (NR SYS_newfstatat) 0 1,
      BPF_STMT (BPF_RET OR BPF_K) SECCOMP_RET_TRAP,
      BPF_JUMP (BPF_JMP OR BPF_JEQ OR BPF_K) (NR SYS_getuid) 0 1,
      BPF_STMT (BPF_RET OR BPF_K) SECCOMP_RET_TRAP,
      BPF_JUMP (BPF_JMP OR BPF_JEQ OR BPF_K) (NR SYS_getgid) 0 1,
      BPF_STMT (BPF_RET OR BPF_K) SECCOMP_RET_TRAP,
      BPF_JUMP (BPF_JMP OR BPF_JEQ OR BPF_K) (NR SYS_geteuid) 0 1,
      BPF_STMT (BPF_RET OR BPF_K) SECCOMP_RET_TRAP,
      BPF_JUMP (BPF_JMP OR BPF_JEQ OR BPF_K) (NR SYS_getegid) 0 1,
      BPF_STMT (BPF_RET OR BPF_K) SECCOMP_RET_TRAP,
      BPF_JUMP (BPF_JMP OR BPF_JEQ OR BPF_K) (NR SYS_getresuid) 0 1,
      BPF_STMT (BPF_RET OR BPF_K) SECCOMP_RET_TRAP,
      BPF_JUMP (BPF_JMP OR BPF_JEQ OR BPF_K) (NR SYS_getresgid) 0 1,
      BPF_STMT (BPF_RET OR BPF_K) SECCOMP_RET_TRAP]"

definition filter_tail :: "sock_filter list" where
  "filter_tail = [BPF_STMT (BPF_RET OR BPF_K) SECCOMP_RET_ALLOW]"

definition seccomp_filter32 ::
  "(syscall \<Rightarrow> 32 word) \<Rightarrow> 32 linker_maps_addr_t \<Rightarrow> sock_filter list" where
  "seccomp_filter32 NR maps =
     filter_arch32 @ filter_low32 @ filter_window32 maps
       @ filter_syscalls NR @ filter_syscalls32 NR @ filter_tail"

definition seccomp_filter64 ::
  "(syscall \<Rightarrow> 32 word) \<Rightarrow> 64 linker_maps_addr_t \<Rightarrow> sock_filter list" where
  "seccomp_filter64 NR maps =
     filter_arch64 @ filter_low64 @ filter_window64 maps
       @ filter_syscalls NR @ filter_syscalls64 NR @ filter_tail"

text \<open>
  The syscalls each build checks, as lists of names in the order of the source (the
  32-bit list names three of them twice, as the source does).
\<close>

definition denied_common :: "syscall list" where
  "denied_common =
     [SYS_openat, SYS_readlinkat, SYS_faccessat, SYS_unlinkat, SYS_connect,
      SYS_execve, SYS_inotify_add_watch, SYS_mkdirat, SYS_getdents64, SYS_ptrace,
      SYS_clock_settime, SYS_clock_gettime, SYS_gettimeofday, SYS_settimeofday]"

definition denied_only32 :: "syscall list" where
  "denied_only32 =
     [SYS_open, SYS_readlink, SYS_access, SYS_getuid32, SYS_getgid32, SYS_fstat,
      SYS_fstat64, SYS_statfs64, SYS_uname, SYS_ioprio_set, SYS_sysinfo, SYS_socket,
      SYS_ioctl, SYS_prctl, SYS_getuid32, SYS_getgid32, SYS_geteuid32,
      SYS_getegid32, SYS_getresuid32, SYS_getresgid32, SYS_inotify_add_watch,
      SYS_fstatat64]"

definition denied_only64 :: "syscall list" where
  "denied_only64 =
     [SYS_newfstatat, SYS_getuid, SYS_getgid, SYS_geteuid, SYS_getegid,
      SYS_getresuid, SYS_getresgid]"

definition denied32 :: "syscall list" where
  "denied32 = denied_common @ denied_only32"

definition denied64 :: "syscall list" where
  "denied64 = denied_common @ denied_only64"

text \<open>
  Two numberings to run the filter on: the ARM EABI table and the generic table that
  AArch64 uses, for the names each build mentions (0 elsewhere).
\<close>

fun arm_NR :: "syscall \<Rightarrow> 32 word" where
  "arm_NR SYS_openat = 322"
| "arm_NR SYS_readlinkat = 332"
| "arm_NR SYS_faccessat = 334"
| "arm_NR SYS_unlinkat = 328"
| "arm_NR SYS_connect = 283"
| "arm_NR SYS_execve = 11"
| "arm_NR SYS_inotify_add_watch = 317"
| "arm_NR SYS_mkdirat = 323"
| "arm_NR SYS_getdents64 = 217"
| "arm_NR SYS_ptrace = 26"
| "arm_NR SYS_clock_settime = 262"
| "arm_NR SYS_clock_gettime = 263"
| "arm_NR SYS_gettimeofday = 78"
| "arm_NR SYS_settimeofday = 79"
| "arm_NR SYS_open = 5"
| "arm_NR SYS_readlink = 85"
| "arm_NR SYS_access = 33"
| "arm_NR SYS_getuid32 = 199"
| "arm_NR SYS_getgid32 = 200"
| "arm_NR SYS_fstat = 108"
| "arm_NR SYS_fstat64 = 197"
| "arm_NR SYS_statfs64 = 266"
| "arm_NR SYS_uname = 122"
| "arm_NR SYS_ioprio_set = 314"
| "arm_NR SYS_sysinfo = 116"
| "arm_NR SYS_socket = 281"
| "arm_NR SYS_ioctl = 54"
| "arm_NR SYS_prctl = 172"
| "arm_NR SYS_geteuid32 = 201"
| "arm_NR SYS_getegid32 = 202"
| "arm_NR SYS_getresuid32 = 209"
| "arm_NR SYS_getresgid32 = 211"
| "arm_NR SYS_fstatat64 = 327"
| "arm_NR _ = 0"

fun aarch64_NR :: "syscall \<Rightarrow> 32 word" where
  "aarch64_NR SYS_openat = 56"
| "aarch64_NR SYS_readlinkat = 78"
| "aarch64_NR SYS_faccessat = 48"
| "aarch64_NR SYS_unlinkat = 35"
| "aarch64_NR SYS_connect = 203"
| "aarch64_NR SYS_execve = 221"
| "aarch64_NR SYS_inotify_add_watch = 27"
| "aarch64_NR SYS_mkdirat = 34"
| "aarch64_NR SYS_getdents64 = 61"
| "aarch64_NR SYS_ptrace = 117"
| "aarch64_NR SYS_clock_settime = 112"
| "aarch64_NR SYS_clock_gettime = 113"
| "aarch64_NR SYS_gettimeofday = 169"
| "aarch64_NR SYS_settimeofday = 170"
| "aarch64_NR SYS_newfstatat = 79"
| "aarch64_NR SYS_getuid = 174"
| "aarch64_NR SYS_getgid = 176"
| "aarch64_NR SYS_geteuid = 175"
| "aarch64_NR SYS_getegid = 177"
| "aarch64_NR SYS_getresuid = 148"
| "aarch64_NR SYS_getresgid = 150"
| "aarch64_NR _ = 0"

text \<open>
  The window \<open>[PRELINKER_ADDR, LINKER_MAPS_LAST_ADDR)\<close> as a direct unsigned comparison
  of the whole pointer: what the filter's comparisons are measured against.
\<close>

definition in_window :: "'a::len linker_maps_addr_t \<Rightarrow> 'a word \<Rightarrow> bool" where
  "in_window maps ip = (prelinker_addr maps \<le> ip \<and> ip < linker_maps_last_addr maps)"

text \<open>
  \<open>trap_on ns\<close> is the run of compare-and-trap pairs for the numbers \<open>ns\<close>; the
  syscall checks of the filter are such runs.
\<close>

definition trap_on :: "32 word list \<Rightarrow> sock_filter list" where
  "trap_on ns = concat (map (\<lambda>n. [BPF_JUMP (BPF_JMP OR BPF_JEQ OR BPF_K) n 0 1,
                                    BPF_STMT (BPF_RET OR BPF_K) SECCOMP_RET_TRAP]) ns)"

text \<open>
  Registry contents to run the filter on: the initial values written in
  \<open>struct linker_maps_addr_t\<close> with the window closed at the end of the guest libc slot;
  the same layout at \<open>ORI_PRELINKER_ADDR\<close> of the 64-bit build; and a layout whose window
  crosses a 4 GiB boundary.
\<close>

definition maps_example32 :: "32 linker_maps_addr_t" where
  "maps_example32 =
     \<lparr>prelinker_addr = 0xbc9e0000, prelinker_size = 0x30000,
      host_linker_addr = 0xbca20000, host_linker_size = 0x100000,
      guest_linker_addr = 0xbcb20000, guest_linker_size = 0x140000,
      guest_libc_addr = 0xbcc60000, guest_libc_size = 0x130000,
      host_libs_addr = 0xbcd90000, host_libs_size = 0,
      linker_maps_last_addr = 0xbcd90000\<rparr>"

definition maps_example64 :: "64 linker_maps_addr_t" where
  "maps_example64 =
     \<lparr>prelinker_addr = 0x782EEF0000, prelinker_size = 0x30000,
      host_linker_addr = 0x782EF30000, host_linker_size = 0x100000,
      guest_linker_addr = 0x782F030000, guest_linker_size = 0x140000,
      guest_libc_addr = 0x782F170000, guest_libc_size = 0x130000,
      host_libs_addr = 0x782F2A0000, host_libs_size = 0,
      linker_maps_last_addr = 0x782F2A0000\<rparr>"

definition maps_straddle64 :: "64 linker_maps_addr_t" where
  "maps_straddle64 =
     \<lparr>prelinker_addr = 0x77FFF00000, prelinker_size = 0x30000,
      host_linker_addr = 0x77FFF40000, host_linker_size = 0x100000,
      guest_linker_addr = 0x7800040000, guest_linker_size = 0x140000,
      guest_libc_addr = 0x7800180000, guest_libc_size = 0x130000,
      host_libs_addr = 0x78002B0000, host_libs_size = 0,
      linker_maps_last_addr = 0x78002B0000\<rparr>"

section \<open>The loader of \<open>linker_phdr.cpp\<close>\<close>

subsection \<open>ELF tables, flags and pages\<close>

text \<open>
  \<open>ElfW(Addr)\<close>, \<open>size_t\<close> and pointers are words of the build's width \<open>'a\<close> (32 or
  64); a null pointer is the word 0. The records list the fields of \<open>ElfW(Ehdr)\<close>,
  \<open>ElfW(Phdr)\<close> and \<open>ElfW(Shdr)\<close> that the loader reads. The segment, section,
  protection and mapping constants below have the values of the Linux headers for ARM.
\<close>

record (overloaded) 'a Elf_Ehdr =
  e_ident :: "8 word list"
  e_type :: "16 word"
  e_machine :: "16 word"
  e_version :: "32 word"
  e_phoff :: "'a word"
  e_shoff :: "'a word"
  e_phnum :: "16 word"
  e_shnum :: "16 word"

record (overloaded) 'a Elf_Phdr =
  p_type :: "32 word"
  p_flags :: "32 word"
  p_offset :: "'a word"
  p_vaddr :: "'a word"
  p_filesz :: "'a word"
  p_memsz :: "'a word"

record (overloaded) 'a Elf_Shdr =
  sh_type :: "32 word"
  sh_offset :: "'a word"
  sh_size :: "'a word"
  sh_link :: "32 word"

definition PT_LOAD :: "32 word" where "PT_LOAD = 1"
definition PT_DYNAMIC :: "32 word" where "PT_DYNAMIC = 2"
definition PT_PHDR :: "32 word" where "PT_PHDR = 6"
definition PT_GNU_RELRO :: "32 word" where "PT_GNU_RELRO = 0x6474e552"

definition PF_X :: "32 word" where "PF_X = 1"
definition PF_W :: "32 word" where "PF_W = 2"
definition PF_R :: "32 word" where "PF_R = 4"

definition SHT_STRTAB :: "32 word" where "SHT_STRTAB = 3"
definition SHT_DYNAMIC :: "32 word" where "SHT_DYNAMIC = 6"

definition PROT_NONE :: "32 word" where "PROT_NONE = 0"
definition PROT_READ :: "32 word" where "PROT_READ = 1"
definition PROT_WRITE :: "32 word" where "PROT_WRITE = 2"
definition PROT_EXEC :: "32 word" where "PROT_EXEC = 4"

definition MAP_PRIVATE :: "32 word" where "MAP_PRIVATE = 0x02"
definition MAP_FIXED :: "32 word" where "MAP_FIXED = 0x10"
definition MAP_ANONYMOUS :: "32 word" where "MAP_ANONYMOUS = 0x20"

definition sizeof_Ehdr :: "'a::len word" where
  "sizeof_Ehdr = (if LENGTH('a) = 64 then 64 else 52)"

definition sizeof_Phdr :: "'a::len word" where
  "sizeof_Phdr = (if LENGTH('a) = 64 then 56 else 32)"

definition sizeof_Shdr :: "'a::len word" where
  "sizeof_Shdr = (if LENGTH('a) = 64 then 64 else 40)"

definition MAYBE_MAP_FLAG :: "32 word \<Rightarrow> 32 word \<Rightarrow> 32 word \<Rightarrow> 32 word" where
  "MAYBE_MAP_FLAG x from to = (if x AND from \<noteq> 0 then to else 0)"

definition PFLAGS_TO_PROT :: "32 word \<Rightarrow> 32 word" where
  "PFLAGS_TO_PROT x =
     (MAYBE_MAP_FLAG x PF_X PROT_EXEC OR MAYBE_MAP_FLAG x PF_R PROT_READ
        OR MAYBE_MAP_FLAG x PF_W PROT_WRITE)"

text \<open>
  Modelled from the spec: the page macros \<open>PAGE_SIZE\<close>, \<open>PAGE_MASK\<close>, \<open>PAGE_START\<close>,
  \<open>PAGE_OFFSET\<close> and \<open>PAGE_END\<close> come from headers that are not among the sources. The
  specification rounds addresses down and up "to page boundaries"; pages are the 4096
  bytes of the target, rounding is by masking, and rounding up adds \<open>PAGE_SIZE - 1\<close>
  first, in the word arithmetic of the address type.
\<close>

definition PAGE_SIZE :: "'a::len word" where
  "PAGE_SIZE = 4096"

definition PAGE_MASK :: "'a::len word" where
  "PAGE_MASK = NOT (PAGE_SIZE - 1)"

definition PAGE_START :: "'a::len word \<Rightarrow> 'a word" where
  "PAGE_START x = x AND PAGE_MASK"

definition PAGE_OFFSET :: "'a::len word \<Rightarrow> 'a word" where
  "PAGE_OFFSET x = x AND NOT PAGE_MASK"

definition PAGE_END :: "'a::len word \<Rightarrow> 'a word" where
  "PAGE_END x = PAGE_START (x + (PAGE_SIZE - 1))"

subsection \<open>\<open>phdr_table_get_load_size\<close>\<close>

text \<open>
  The scan of lines 385 to 400 over the table, carrying \<open>min_vaddr\<close>, \<open>max_vaddr\<close> and
  \<open>found_pt_load\<close>; then the rounding of lines 401 to 414. The result is the returned
  size with the values stored through \<open>out_min_vaddr\<close> and \<open>out_max_vaddr\<close>.
\<close>

fun load_size_scan ::
  "'a::len Elf_Phdr list \<Rightarrow> 'a word \<times> 'a word \<times> bool \<Rightarrow> 'a word \<times> 'a word \<times> bool" where
  "load_size_scan [] st = st"
| "load_size_scan (phdr # rest) (min_vaddr, max_vaddr, found_pt_load) =
     (if p_type phdr \<noteq> PT_LOAD then load_size_scan rest (min_vaddr, max_vaddr, found_pt_load)
      else load_size_scan rest
             (if p_vaddr phdr < min_vaddr then p_vaddr phdr else min_vaddr,
              if p_vaddr phdr + p_memsz phdr > max_vaddr then p_vaddr phdr + p_memsz phdr
              else max_vaddr,
              True))"

definition phdr_table_get_load_size :: "'a::len Elf_Phdr list \<Rightarrow> 'a word \<times> 'a word \<times> 'a word" where
  "phdr_table_get_load_size phdr_table =
     (case load_size_scan phdr_table (- 1, 0, False) of
        (min_vaddr, max_vaddr, found_pt_load) \<Rightarrow>
          (let min_vaddr = (if \<not> found_pt_load then 0 else min_vaddr);
               min_vaddr = PAGE_START min_vaddr;
               max_vaddr = PAGE_END max_vaddr
           in (max_vaddr - min_vaddr, min_vaddr, max_vaddr)))"

subsection \<open>The process and what lies outside the loader\<close>

text \<open>
  Every request the loader makes of the kernel, and every write into mapped memory, is
  recorded in order in the \<open>trace\<close> of the process. \<open>Mmap\<close> stands for both
  \<open>mmap\<close> and \<open>mmap64\<close>: address, length, protection, flags, descriptor, file
  offset. \<open>Memset\<close> is a zero fill of the given length at the given address.
  \<open>Map_fragment\<close> is \<open>MappedFileFragment::Map\<close>, see below.
\<close>

datatype 'w effect =
    Pread64 int 'w int
  | Mmap 'w 'w "32 word" "32 word" int int
  | Munmap 'w 'w
  | Mprotect 'w 'w "32 word"
  | Memset 'w 'w
  | Fstat int
  | Prctl_set_seccomp "sock_filter list"
  | Map_fragment int int 'w 'w
  | Libc_fatal_no_abort

text \<open>
  The \<open>return false\<close> exits of the loader, each with the arguments of its \<open>DL_ERR\<close>
  message where it has one.
\<close>

datatype 'w failure =
    Cant_read_file
  | File_too_small 'w
  | Bad_ELF_magic
  | Wrong_ELF_class "8 word"
  | Not_little_endian "8 word"
  | Unexpected_e_type "16 word"
  | Unexpected_e_version "32 word"
  | Unexpected_e_machine "16 word"
  | Invalid_e_phnum 'w
  | Phdr_mmap_failed
  | No_section_headers
  | Shdr_mmap_failed
  | No_dynamic_section
  | Invalid_sh_link "32 word"
  | Invalid_link_sh_type "32 word"
  | Dynamic_mmap_failed
  | Strtab_mmap_failed
  | No_loadable_segments
  | Reserved_too_small (reported: 'w) (needed: 'w)
  | Couldnt_reserve 'w
  | Null_extinfo
  | Couldnt_map_segment nat
  | Couldnt_zero_fill
  | Cant_find_loaded_phdr
  | Phdr_not_in_loadable_segment 'w

text \<open>
  What the loader does not decide. \<open>kernel\<close> answers a request given the requests made
  before it: \<open>None\<close> when the request fails (\<open>MAP_FAILED\<close>, a negative return),
  \<open>Some v\<close> when it succeeds with value \<open>v\<close> (the address of a mapping, the count of
  bytes read, the size of a file). \<open>file_ehdr\<close> is the ELF header stored in the file at
  the reader's offset, \<open>file_phdr off i\<close> and \<open>file_shdr off i\<close> entry \<open>i\<close> of the
  table stored at \<open>off\<close>. \<open>image_e_phoff a\<close> is the \<open>e_phoff\<close> field of the header
  image in memory at address \<open>a\<close>. \<open>same_page a off\<close> says that the page of memory at
  \<open>a\<close> and the page of the relro file at offset \<open>off\<close> hold the same bytes
  (\<open>memcmp\<close> over \<open>PAGE_SIZE\<close> bytes gives 0). \<open>syscall_nr\<close> is the numbering of
  \<open>asm/unistd.h\<close>.
\<close>

record (overloaded) 'a environment =
  syscall_nr :: "syscall \<Rightarrow> 32 word"
  kernel :: "'a word effect list \<Rightarrow> 'a word effect \<Rightarrow> 'a word option"
  file_ehdr :: "'a Elf_Ehdr"
  file_phdr :: "'a word \<Rightarrow> nat \<Rightarrow> 'a Elf_Phdr"
  file_shdr :: "'a word \<Rightarrow> nat \<Rightarrow> 'a Elf_Shdr"
  image_e_phoff :: "'a word \<Rightarrow> 'a word"
  same_page :: "'a word \<Rightarrow> 'a word \<Rightarrow> bool"

text \<open>
  The process: the registry at \<open>LINKER_MAPS_ADDR\<close> and the trace. Then the members
  of \<open>ElfReader\<close>, the member \<open>name_\<close> of the source written \<open>m_name\<close> and so
  on; \<open>m_phdr_table\<close> and \<open>m_shdr_table\<close> hold the entries the pointers of the
  source point to, so \<open>m_phdr_num\<close> and \<open>m_shdr_num\<close> are their lengths.
\<close>

record (overloaded) 'a process =
  linker_maps :: "'a linker_maps_addr_t"
  trace :: "'a word effect list"

record (overloaded) 'a ElfReader =
  m_name :: string
  m_fd :: int
  m_file_offset :: int
  m_file_size :: int
  m_header :: "'a Elf_Ehdr"
  m_phdr_mmap :: "'a word"
  m_phdr_table :: "'a Elf_Phdr list"
  m_phdr_size :: "'a word"
  m_shdr_table :: "'a Elf_Shdr list"
  m_dynamic :: "'a word"
  m_strtab :: "'a word"
  m_strtab_size :: "'a word"
  m_load_start :: "'a word"
  m_load_size :: "'a word"
  m_load_bias :: "'a word"
  m_loaded_phdr :: "'a word"

definition m_phdr_num :: "'a::len ElfReader \<Rightarrow> 'a word" where
  "m_phdr_num r = of_nat (length (m_phdr_table r))"

definition m_shdr_num :: "'a::len ElfReader \<Rightarrow> 'a word" where
  "m_shdr_num r = of_nat (length (m_shdr_table r))"

type_synonym 'a state = "'a ElfReader \<times> 'a process"

type_synonym 'a step = "'a state \<Rightarrow> ('a word failure + unit) \<times> 'a state"

text \<open>
  A request: ask the kernel, record the request, hand back the answer.
\<close>

definition request ::
  "'a::len environment \<Rightarrow> 'a word effect \<Rightarrow> 'a process \<Rightarrow> 'a word option \<times> 'a process" where
  "request E req w = (kernel E (trace w) req, w\<lparr>trace := trace w @ [req]\<rparr>)"

text \<open>The short-circuit \<open>&&\<close> of two steps that return \<open>bool\<close>.\<close>

definition andalso :: "'a step \<Rightarrow> 'a step \<Rightarrow> 'a step" where
  "andalso f g s = (case f s of (Inr u, s') \<Rightarrow> g s' | (Inl e, s') \<Rightarrow> (Inl e, s'))"

subsection \<open>\<open>init_seccomp\<close>\<close>

text \<open>
  The filter is built from the registry as it is when \<open>init_seccomp\<close> runs; the
  \<open>__LP64__\<close> build is the one with 64-bit pointers. \<open>__libc_fatal_no_abort\<close> reports
  and returns.
\<close>

definition maps_cast :: "'a::len linker_maps_addr_t \<Rightarrow> 'b::len linker_maps_addr_t" where
  "maps_cast m =
     \<lparr>prelinker_addr = ucast (prelinker_addr m), prelinker_size = ucast (prelinker_size m),
      host_linker_addr = ucast (host_linker_addr m), host_linker_size = ucast (host_linker_size m),
      guest_linker_addr = ucast (guest_linker_addr m),
      guest_linker_size = ucast (guest_linker_size m),
      guest_libc_addr = ucast (guest_libc_addr m), guest_libc_size = ucast (guest_libc_size m),
      host_libs_addr = ucast (host_libs_addr m), host_libs_size = ucast (host_libs_size m),
      linker_maps_last_addr = ucast (linker_maps_last_addr m)\<rparr>"

definition seccomp_filter ::
  "(syscall \<Rightarrow> 32 word) \<Rightarrow> 'a::len linker_maps_addr_t \<Rightarrow> sock_filter list" where
  "seccomp_filter NR m =
     (if LENGTH('a) = 64 then seccomp_filter64 NR (maps_cast m)
      else seccomp_filter32 NR (maps_cast m))"

definition init_seccomp :: "'a::len environment \<Rightarrow> 'a process \<Rightarrow> 'a process" where
  "init_seccomp E w =
     (case request E (Prctl_set_seccomp (seccomp_filter (syscall_nr E) (linker_maps w))) w of
        (Some v, w') \<Rightarrow> w'
      | (None, w') \<Rightarrow> w'\<lparr>trace := trace w' @ [Libc_fatal_no_abort]\<rparr>)"

subsection \<open>Checks that abort\<close>

text \<open>
  A call that can end the process returns \<open>Abort\<close> when a \<open>CHECK\<close> fails, \<open>Fault\<close>
  when it takes a remainder by zero (undefined in C++, a fatal signal on the targets), and
  \<open>Return\<close> with its value otherwise.
\<close>

datatype 'r checked = Abort | Fault | Return 'r

text \<open>
  Modelled from the spec: \<open>CHECK\<close> is a macro of a header that is not among the sources;
  it is the "abort-on-failure check": when its condition is false the process aborts and
  nothing after it runs.
\<close>

definition CHECK :: "bool \<Rightarrow> 'r checked \<Rightarrow> 'r checked" where
  "CHECK b rest = (if b then rest else Abort)"

definition get_string :: "'a::len ElfReader \<Rightarrow> 32 word \<Rightarrow> 'a word checked" where
  "get_string r index =
     CHECK (m_strtab r \<noteq> 0)
       (CHECK (ucast index < m_strtab_size r)
          (Return (m_strtab r + ucast index)))"

text \<open>
  \<open>off64_t\<close> values are integers; \<open>safe_add\<close> refuses a sum beyond \<open>INT64_MAX\<close>.
  \<open>CheckFileRange\<close> is the chain of \<open>&&\<close> of lines 190 to 194: the remainder
  \<open>offset % alignment\<close> is taken only when the four conditions before it hold.
\<close>

definition INT64_MAX :: int where
  "INT64_MAX = 2 ^ 63 - 1"

definition safe_add :: "int \<Rightarrow> nat \<Rightarrow> int option checked" where
  "safe_add a b =
     CHECK (a \<ge> 0) (Return (if nat (INT64_MAX - a) < b then None else Some (a + int b)))"

definition CheckFileRange ::
  "'a::len ElfReader \<Rightarrow> 'a word \<Rightarrow> 'a word \<Rightarrow> 'a word \<Rightarrow> bool checked" where
  "CheckFileRange r offset sz alignment =
     (case safe_add (m_file_offset r) (unat offset) of
        Abort \<Rightarrow> Abort
      | Fault \<Rightarrow> Fault
      | Return None \<Rightarrow> Return False
      | Return (Some range_start) \<Rightarrow>
          (case safe_add range_start (unat sz) of
             Abort \<Rightarrow> Abort
           | Fault \<Rightarrow> Fault
           | Return None \<Rightarrow> Return False
           | Return (Some range_end) \<Rightarrow>
               if range_start < m_file_size r \<and> range_end \<le> m_file_size r
               then (if alignment = 0 then Fault else Return (offset mod alignment = 0))
               else Return False))"

subsection \<open>Reading the header and the tables\<close>

text \<open>
  The identification bytes \<open>e_ident\<close> are the list of the 16 bytes of the header. The
  constants of \<open>elf.h\<close> have the values of the ELF format. \<open>ELF_TARG_MACH\<close> is set by the
  build: \<open>EM_AARCH64\<close> for the 64-bit target and \<open>EM_ARM\<close> for the 32-bit one, the two
  machines for which the file builds its filter.
\<close>

definition ELFMAG :: "8 word list" where
  "ELFMAG = [0x7f, 0x45, 0x4c, 0x46]"

definition EI_CLASS :: nat where "EI_CLASS = 4"
definition EI_DATA :: nat where "EI_DATA = 5"
definition ELFCLASS32 :: "8 word" where "ELFCLASS32 = 1"
definition ELFCLASS64 :: "8 word" where "ELFCLASS64 = 2"
definition ELFDATA2LSB :: "8 word" where "ELFDATA2LSB = 1"
definition ET_DYN :: "16 word" where "ET_DYN = 3"
definition EV_CURRENT :: "32 word" where "EV_CURRENT = 1"

definition ReadElfHeader :: "'a::len environment \<Rightarrow> 'a step" where
  "ReadElfHeader E = (\<lambda>(r, w).
     case request E (Pread64 (m_fd r) sizeof_Ehdr (m_file_offset r)) w of
       (None, w') \<Rightarrow> (Inl Cant_read_file, r, w')
     | (Some rc, w') \<Rightarrow>
         if rc \<noteq> sizeof_Ehdr then (Inl (File_too_small rc), r, w')
         else (Inr (), r\<lparr>m_header := file_ehdr E\<rparr>, w'))"

definition VerifyElfHeader :: "'a::len step" where
  "VerifyElfHeader = (\<lambda>(r, w).
     let h = m_header r; elf_class = e_ident h ! EI_CLASS in
     if take 4 (e_ident h) \<noteq> ELFMAG then (Inl Bad_ELF_magic, r, w)
     else if elf_class \<noteq> (if LENGTH('a) = 64 then ELFCLASS64 else ELFCLASS32)
       then (Inl (Wrong_ELF_class elf_class), r, w)
     else if e_ident h ! EI_DATA \<noteq> ELFDATA2LSB
       then (Inl (Not_little_endian (e_ident h ! EI_DATA)), r, w)
     else if e_type h \<noteq> ET_DYN then (Inl (Unexpected_e_type (e_type h)), r, w)
     else if e_version h \<noteq> EV_CURRENT then (Inl (Unexpected_e_version (e_version h)), r, w)
     else if e_machine h \<noteq> (if LENGTH('a) = 64 then ucast EM_AARCH64 else ucast EM_ARM)
       then (Inl (Unexpected_e_machine (e_machine h)), r, w)
     else (Inr (), r, w))"

definition ReadProgramHeader :: "'a::len environment \<Rightarrow> 'a step" where
  "ReadProgramHeader E = (\<lambda>(r, w).
     let phdr_num = (ucast (e_phnum (m_header r)) :: 'a word) in
     if phdr_num < 1 \<or> phdr_num > 65536 div sizeof_Phdr
     then (Inl (Invalid_e_phnum phdr_num), r, w)
     else
       let page_min = PAGE_START (e_phoff (m_header r));
           page_max = PAGE_END (e_phoff (m_header r) + phdr_num * sizeof_Phdr);
           r = r\<lparr>m_phdr_size := page_max - page_min\<rparr>
       in case request E (Mmap 0 (m_phdr_size r) PROT_READ MAP_PRIVATE (m_fd r)
                           (m_file_offset r + uint page_min)) w of
            (None, w') \<Rightarrow> (Inl Phdr_mmap_failed, r, w')
          | (Some mmap_result, w') \<Rightarrow>
              (Inr (),
               r\<lparr>m_phdr_mmap := mmap_result,
                 m_phdr_table :=
                   map (file_phdr E (e_phoff (m_header r))) [0..<unat phdr_num]\<rparr>,
               w'))"

text \<open>
  Modelled from the spec: \<open>MappedFileFragment::Map\<close> is not among the sources. It "maps
  both fragments ... read-only", each at its own offset and size; the request is recorded
  as \<open>Map_fragment\<close> with the descriptor, the base offset, the offset in the ELF file and
  the size, and the kernel's answer is the address of the fragment's data. The fragment's
  \<open>size()\<close> is the size asked for.
\<close>

definition ReadSectionHeaders :: "'a::len environment \<Rightarrow> 'a step" where
  "ReadSectionHeaders E = (\<lambda>(r, w).
     let shdr_num = (ucast (e_shnum (m_header r)) :: 'a word) in
     if shdr_num = 0 then (Inl No_section_headers, r, w)
     else
       let sz = shdr_num * sizeof_Shdr
       in case request E (Map_fragment (m_fd r) (m_file_offset r) (e_shoff (m_header r)) sz) w of
            (None, w') \<Rightarrow> (Inl Shdr_mmap_failed, r, w')
          | (Some data, w') \<Rightarrow>
              (Inr (),
               r\<lparr>m_shdr_table :=
                   map (file_shdr E (e_shoff (m_header r))) [0..<unat shdr_num]\<rparr>,
               w'))"

text \<open>
  \<open>ReadDynamicSection\<close>: the first section of type \<open>SHT_DYNAMIC\<close>, its link, then the
  two fragments. The calls of \<open>CheckFileRange\<close> at lines 338 to 341 and 350 to 354 are
  comments in the source, so the function does not make them.
\<close>

definition ReadDynamicSection :: "'a::len environment \<Rightarrow> 'a step" where
  "ReadDynamicSection E = (\<lambda>(r, w).
     case find (\<lambda>s. sh_type s = SHT_DYNAMIC) (m_shdr_table r) of
       None \<Rightarrow> (Inl No_dynamic_section, r, w)
     | Some dynamic_shdr \<Rightarrow>
         if ucast (sh_link dynamic_shdr) \<ge> m_shdr_num r
         then (Inl (Invalid_sh_link (sh_link dynamic_shdr)), r, w)
         else
           let strtab_shdr = m_shdr_table r ! unat (sh_link dynamic_shdr) in
           if sh_type strtab_shdr \<noteq> SHT_STRTAB
           then (Inl (Invalid_link_sh_type (sh_type strtab_shdr)), r, w)
           else
             case request E (Map_fragment (m_fd r) (m_file_offset r)
                               (sh_offset dynamic_shdr) (sh_size dynamic_shdr)) w of
               (None, w1) \<Rightarrow> (Inl Dynamic_mmap_failed, r, w1)
             | (Some dynamic_data, w1) \<Rightarrow>
                 (case request E (Map_fragment (m_fd r) (m_file_offset r)
                                    (sh_offset strtab_shdr) (sh_size strtab_shdr)) w1 of
                    (None, w2) \<Rightarrow> (Inl Strtab_mmap_failed, r\<lparr>m_dynamic := dynamic_data\<rparr>, w2)
                  | (Some strtab_data, w2) \<Rightarrow>
                      (Inr (),
                       r\<lparr>m_dynamic := dynamic_data, m_strtab := strtab_data,
                         m_strtab_size := sh_size strtab_shdr\<rparr>,
                       w2)))"

definition ElfReader_read :: "'a::len environment \<Rightarrow> 'a step" where
  "ElfReader_read E = andalso (ReadSectionHeaders E) (ReadDynamicSection E)"

subsection \<open>\<open>ReserveAddressSpace\<close>\<close>

text \<open>
  \<open>android_dlextinfo\<close> with the two flags the function tests; a null \<open>extinfo\<close> is
  \<open>None\<close>. \<open>strstr\<close> gives the offset of the first occurrence, \<open>None\<close> for the null
  pointer.
\<close>

record (overloaded) 'a android_dlextinfo =
  flags :: "64 word"
  reserved_addr :: "'a word"
  reserved_size :: "'a word"

definition ANDROID_DLEXT_RESERVED_ADDRESS :: "64 word" where
  "ANDROID_DLEXT_RESERVED_ADDRESS = 0x1"

definition ANDROID_DLEXT_RESERVED_ADDRESS_HINT :: "64 word" where
  "ANDROID_DLEXT_RESERVED_ADDRESS_HINT = 0x2"

fun strstr :: "string \<Rightarrow> string \<Rightarrow> nat option" where
  "strstr [] needle = (if needle = [] then Some 0 else None)"
| "strstr (c # cs) needle =
     (if take (length needle) (c # cs) = needle then Some 0
      else map_option Suc (strstr cs needle))"

text \<open>
  Lines 804 to 811: the values of the locals \<open>reserved_size\<close> and \<open>reserved_hint\<close>
  (\<open>reserved_size'\<close> below, the plain name being the field).
\<close>

definition reservation :: "'a::len android_dlextinfo option \<Rightarrow> 'a word \<times> bool" where
  "reservation extinfo =
     (case extinfo of
        None \<Rightarrow> (0, True)
      | Some e \<Rightarrow>
          if flags e AND ANDROID_DLEXT_RESERVED_ADDRESS \<noteq> 0 then (reserved_size e, False)
          else if flags e AND ANDROID_DLEXT_RESERVED_ADDRESS_HINT \<noteq> 0
            then (reserved_size e, True)
          else (0, True))"

definition ReserveAddressSpace ::
  "'a::len environment \<Rightarrow> 'a android_dlextinfo option \<Rightarrow> 'a step" where
  "ReserveAddressSpace E extinfo = (\<lambda>(r, w).
     case phdr_table_get_load_size (m_phdr_table r) of
       (load_size, min_vaddr, max_vaddr) \<Rightarrow>
     let r = r\<lparr>m_load_size := load_size\<rparr> in
     if m_load_size r = 0 then (Inl No_loadable_segments, r, w)
     else
       let addr = min_vaddr in
       case reservation extinfo of
         (reserved_size', reserved_hint) \<Rightarrow>
       if m_load_size r > reserved_size' then
         if \<not> reserved_hint
         then (Inl (Reserved_too_small (reserved_size' - m_load_size r) (m_load_size r)), r, w)
         else
           let isGuestLibc = (addr = 0 \<and> strstr (m_name r) ''libc.so'' \<noteq> None);
               map_addr = (if isGuestLibc then guest_libc_addr (linker_maps w) else addr)
           in case request E (Mmap map_addr (m_load_size r) PROT_NONE
                                (MAP_PRIVATE OR MAP_ANONYMOUS) (- 1) 0) w of
                (None, w') \<Rightarrow> (Inl (Couldnt_reserve (m_load_size r)), r, w')
              | (Some start, w') \<Rightarrow>
                  (Inr (),
                   r\<lparr>m_load_start := start, m_load_bias := start - addr\<rparr>,
                   if isGuestLibc
                   then init_seccomp E
                          (w'\<lparr>linker_maps := (linker_maps w')
                                \<lparr>guest_libc_addr := map_addr,
                                 guest_libc_size := m_load_size r\<rparr>\<rparr>)
                   else w')
       else
         (case extinfo of
            None \<Rightarrow> (Inl Null_extinfo, r, w)
          | Some e \<Rightarrow>
              (Inr (),
               r\<lparr>m_load_start := reserved_addr e, m_load_bias := reserved_addr e - addr\<rparr>,
               w)))"

subsection \<open>\<open>LoadSegments\<close>\<close>

text \<open>One turn of the loop of lines 857 to 917, for the entry at index \<open>i\<close>.\<close>

definition LoadSegment :: "'a::len environment \<Rightarrow> nat \<Rightarrow> 'a Elf_Phdr \<Rightarrow> 'a step" where
  "LoadSegment E i phdr = (\<lambda>(r, w).
     let seg_start = p_vaddr phdr + m_load_bias r;
         seg_end = seg_start + p_memsz phdr;
         seg_page_start = PAGE_START seg_start;
         seg_page_end = PAGE_END seg_end;
         seg_file_end = seg_start + p_filesz phdr;
         file_start = p_offset phdr;
         file_end = file_start + p_filesz phdr;
         file_page_start = PAGE_START file_start;
         file_length = file_end - file_page_start
     in case (if file_length \<noteq> 0
              then request E (Mmap seg_page_start file_length (PFLAGS_TO_PROT (p_flags phdr))
                                (MAP_FIXED OR MAP_PRIVATE) (m_fd r)
                                (m_file_offset r + uint file_page_start)) w
              else (Some seg_page_start, w)) of
          (None, w1) \<Rightarrow> (Inl (Couldnt_map_segment i), r, w1)
        | (Some seg_addr, w1) \<Rightarrow>
            let w2 = (if p_flags phdr AND PF_W \<noteq> 0 \<and> PAGE_OFFSET seg_file_end > 0
                      then w1\<lparr>trace := trace w1
                                 @ [Memset seg_file_end (PAGE_SIZE - PAGE_OFFSET seg_file_end)]\<rparr>
                      else w1);
                seg_file_end = PAGE_END seg_file_end
            in if seg_page_end > seg_file_end
               then (case request E (Mmap seg_file_end (seg_page_end - seg_file_end)
                                       (PFLAGS_TO_PROT (p_flags phdr))
                                       (MAP_FIXED OR MAP_ANONYMOUS OR MAP_PRIVATE) (- 1) 0) w2 of
                       (None, w3) \<Rightarrow> (Inl Couldnt_zero_fill, r, w3)
                     | (Some zeromap, w3) \<Rightarrow> (Inr (), r, w3))
               else (Inr (), r, w2))"

fun LoadSegments_from :: "'a::len environment \<Rightarrow> nat \<Rightarrow> 'a Elf_Phdr list \<Rightarrow> 'a step" where
  "LoadSegments_from E i [] s = (Inr (), s)"
| "LoadSegments_from E i (phdr # rest) s =
     (if p_type phdr \<noteq> PT_LOAD then LoadSegments_from E (Suc i) rest s
      else case LoadSegment E i phdr s of
             (Inl e, s') \<Rightarrow> (Inl e, s')
           | (Inr u, s') \<Rightarrow> LoadSegments_from E (Suc i) rest s')"

definition LoadSegments :: "'a::len environment \<Rightarrow> 'a step" where
  "LoadSegments E = (\<lambda>(r, w). LoadSegments_from E 0 (m_phdr_table r) (r, w))"

subsection \<open>\<open>FindPhdr\<close> and \<open>CheckPhdr\<close>\<close>

definition CheckPhdr :: "'a::len word \<Rightarrow> 'a step" where
  "CheckPhdr loaded = (\<lambda>(r, w).
     let loaded_end = loaded + m_phdr_num r * sizeof_Phdr
     in case find (\<lambda>phdr. p_type phdr = PT_LOAD
                     \<and> p_vaddr phdr + m_load_bias r \<le> loaded
                     \<and> loaded_end \<le> p_filesz phdr + (p_vaddr phdr + m_load_bias r))
               (m_phdr_table r) of
          Some phdr \<Rightarrow> (Inr (), r\<lparr>m_loaded_phdr := loaded\<rparr>, w)
        | None \<Rightarrow> (Inl (Phdr_not_in_loadable_segment loaded), r, w))"

definition FindPhdr :: "'a::len environment \<Rightarrow> 'a step" where
  "FindPhdr E = (\<lambda>(r, w).
     case find (\<lambda>phdr. p_type phdr = PT_PHDR) (m_phdr_table r) of
       Some phdr \<Rightarrow> CheckPhdr (m_load_bias r + p_vaddr phdr) (r, w)
     | None \<Rightarrow>
         (case find (\<lambda>phdr. p_type phdr = PT_LOAD) (m_phdr_table r) of
            Some phdr \<Rightarrow>
              if p_offset phdr = 0
              then let elf_addr = m_load_bias r + p_vaddr phdr;
                       offset = image_e_phoff E elf_addr
                   in CheckPhdr (elf_addr + offset) (r, w)
              else (Inl Cant_find_loaded_phdr, r, w)
          | None \<Rightarrow> (Inl Cant_find_loaded_phdr, r, w)))"

subsection \<open>\<open>Load\<close>\<close>

definition Load :: "'a::len environment \<Rightarrow> 'a android_dlextinfo option \<Rightarrow> 'a step" where
  "Load E extinfo =
     andalso (ReadElfHeader E)
       (andalso VerifyElfHeader
          (andalso (ReadProgramHeader E)
             (andalso (ReserveAddressSpace E extinfo)
                (andalso (LoadSegments E) (FindPhdr E)))))"

subsection \<open>Protection of the loaded segments\<close>

text \<open>
  \<open>_phdr_table_set_load_prot\<close> (lines 925 to 946) and its two callers. The result is the
  returned \<open>int\<close> with the process after the calls of \<open>mprotect\<close>.
\<close>

fun phdr_table_set_load_prot ::
  "'a::len environment \<Rightarrow> 'a Elf_Phdr list \<Rightarrow> 'a word \<Rightarrow> 32 word \<Rightarrow> 'a process
     \<Rightarrow> int \<times> 'a process" where
  "phdr_table_set_load_prot E [] load_bias extra_prot_flags w = (0, w)"
| "phdr_table_set_load_prot E (phdr # rest) load_bias extra_prot_flags w =
     (if p_type phdr \<noteq> PT_LOAD \<or> p_flags phdr AND PF_W \<noteq> 0
      then phdr_table_set_load_prot E rest load_bias extra_prot_flags w
      else
        let seg_page_start = PAGE_START (p_vaddr phdr) + load_bias;
            seg_page_end = PAGE_END (p_vaddr phdr + p_memsz phdr) + load_bias
        in case request E (Mprotect seg_page_start (seg_page_end - seg_page_start)
                             (PFLAGS_TO_PROT (p_flags phdr) OR extra_prot_flags)) w of
             (None, w') \<Rightarrow> (- 1, w')
           | (Some ret, w') \<Rightarrow> phdr_table_set_load_prot E rest load_bias extra_prot_flags w')"

definition phdr_table_protect_segments ::
  "'a::len environment \<Rightarrow> 'a Elf_Phdr list \<Rightarrow> 'a word \<Rightarrow> 'a process \<Rightarrow> int \<times> 'a process" where
  "phdr_table_protect_segments E phdr_table load_bias =
     phdr_table_set_load_prot E phdr_table load_bias 0"

definition phdr_table_unprotect_segments ::
  "'a::len environment \<Rightarrow> 'a Elf_Phdr list \<Rightarrow> 'a word \<Rightarrow> 'a process \<Rightarrow> int \<times> 'a process" where
  "phdr_table_unprotect_segments E phdr_table load_bias =
     phdr_table_set_load_prot E phdr_table load_bias PROT_WRITE"

subsection \<open>\<open>phdr_table_map_gnu_relro\<close>\<close>

text \<open>
  The offsets inside a relro segment never pass its size, so they are natural numbers.
  \<open>same off\<close> is the comparison of the page at \<open>mem_base + off\<close> with the page at
  \<open>file_base + off\<close>. The two inner loops of lines 1145 to 1155:
\<close>

function skip_dissimilar :: "(nat \<Rightarrow> bool) \<Rightarrow> nat \<Rightarrow> nat \<Rightarrow> nat" where
  "skip_dissimilar same sz match_offset =
     (if match_offset < sz \<and> \<not> same match_offset
      then skip_dissimilar same sz (match_offset + unat (PAGE_SIZE :: 32 word))
      else match_offset)"
  by pat_completeness auto
termination
  by (relation "measure (\<lambda>(same, sz, off). sz - off)") (auto simp: PAGE_SIZE_def)

declare skip_dissimilar.simps [simp del]

function count_similar :: "(nat \<Rightarrow> bool) \<Rightarrow> nat \<Rightarrow> nat \<Rightarrow> nat" where
  "count_similar same sz mismatch_offset =
     (if mismatch_offset < sz \<and> same mismatch_offset
      then count_similar same sz (mismatch_offset + unat (PAGE_SIZE :: 32 word))
      else mismatch_offset)"
  by pat_completeness auto
termination
  by (relation "measure (\<lambda>(same, sz, off). sz - off)") (auto simp: PAGE_SIZE_def)

declare count_similar.simps [simp del]

lemma skip_dissimilar_ge: "match_offset \<le> skip_dissimilar same sz match_offset"
  by (induction same sz match_offset rule: skip_dissimilar.induct)
     (subst skip_dissimilar.simps, auto)

lemma skip_dissimilar_stops:
  "skip_dissimilar same sz match_offset < sz \<Longrightarrow> same (skip_dissimilar same sz match_offset)"
  by (induction same sz match_offset rule: skip_dissimilar.induct)
     (subst (asm) skip_dissimilar.simps, subst skip_dissimilar.simps, auto split: if_splits)

lemma count_similar_ge: "mismatch_offset \<le> count_similar same sz mismatch_offset"
  by (induction same sz mismatch_offset rule: count_similar.induct)
     (subst count_similar.simps, auto)

lemma count_similar_gt:
  "mismatch_offset < sz \<Longrightarrow> same mismatch_offset
     \<Longrightarrow> mismatch_offset < count_similar same sz mismatch_offset"
proof -
  assume a: "mismatch_offset < sz" "same mismatch_offset"
  have "mismatch_offset + unat (PAGE_SIZE :: 32 word)
          \<le> count_similar same sz (mismatch_offset + unat (PAGE_SIZE :: 32 word))"
    by (rule count_similar_ge)
  then show ?thesis
    using a by (subst count_similar.simps) (simp add: PAGE_SIZE_def)
qed

text \<open>
  The loop of lines 1143 to 1168 over one segment: skip the dissimilar pages, count the
  similar ones, map the file over them, go on from the first mismatch. The file offset
  handed to \<open>mmap\<close> is \<open>match_offset\<close>, as in the source. The result is \<open>False\<close> when
  an \<open>mmap\<close> fails.
\<close>

function relro_scan ::
  "'a::len environment \<Rightarrow> int \<Rightarrow> 'a word \<Rightarrow> (nat \<Rightarrow> bool) \<Rightarrow> nat \<Rightarrow> nat \<Rightarrow> 'a process
     \<Rightarrow> bool \<times> 'a process" where
  "relro_scan E fd mem_base same sz match_offset w =
     (if match_offset < sz then
        let match_offset' = skip_dissimilar same sz match_offset;
            mismatch_offset = count_similar same sz match_offset'
        in if mismatch_offset > match_offset'
           then (case request E (Mmap (mem_base + of_nat match_offset')
                                   (of_nat (mismatch_offset - match_offset'))
                                   PROT_READ (MAP_PRIVATE OR MAP_FIXED) fd (int match_offset')) w of
                   (None, w') \<Rightarrow> (False, w')
                 | (Some m, w') \<Rightarrow> relro_scan E fd mem_base same sz mismatch_offset w')
           else relro_scan E fd mem_base same sz mismatch_offset w
      else (True, w))"
  by pat_completeness auto
termination relro_scan
proof (relation "measure (\<lambda>(E, fd, mem_base, same, sz, off, w). sz - off)", goal_cases)
  case 1
  then show ?case by simp
next
  case (2 E fd mem_base same sz match_offset w x xa x1 x2 x2a)
  then show ?case
    using skip_dissimilar_ge [of match_offset same sz] by simp
next
  case (3 E fd mem_base same sz match_offset w x xa)
  have "\<not> x < sz"
  proof
    assume "x < sz"
    then have "x < xa"
      using 3 skip_dissimilar_stops [of same sz match_offset] count_similar_gt [of x sz same]
      by simp
    then show False using 3 by simp
  qed
  moreover have "x \<le> xa"
    using 3 count_similar_ge [of x same sz] by simp
  ultimately show ?case using 3 by simp
qed

declare relro_scan.simps [simp del]

text \<open>
  The loop over the table (lines 1123 to 1172), carrying \<open>file_offset\<close>; \<open>None\<close> is
  the \<open>break\<close> for a file too short, after which no later entry is looked at.
\<close>

fun relro_segments ::
  "'a::len environment \<Rightarrow> 'a Elf_Phdr list \<Rightarrow> 'a word \<Rightarrow> int \<Rightarrow> 'a word \<Rightarrow> 'a word \<Rightarrow> 'a process
     \<Rightarrow> bool \<times> 'a process" where
  "relro_segments E [] load_bias fd file_size file_offset w = (True, w)"
| "relro_segments E (phdr # rest) load_bias fd file_size file_offset w =
     (if p_type phdr \<noteq> PT_GNU_RELRO
      then relro_segments E rest load_bias fd file_size file_offset w
      else
        let seg_page_start = PAGE_START (p_vaddr phdr) + load_bias;
            seg_page_end = PAGE_END (p_vaddr phdr + p_memsz phdr) + load_bias;
            mem_base = seg_page_start;
            sz = seg_page_end - seg_page_start
        in if file_size - file_offset < sz then (True, w)
           else
             (case relro_scan E fd mem_base
                     (\<lambda>off. same_page E (mem_base + of_nat off) (file_offset + of_nat off))
                     (unat sz) 0 w of
                (False, w') \<Rightarrow> (False, w')
              | (True, w') \<Rightarrow>
                  relro_segments E rest load_bias fd file_size (file_offset + sz) w'))"

definition phdr_table_map_gnu_relro ::
  "'a::len environment \<Rightarrow> 'a Elf_Phdr list \<Rightarrow> 'a word \<Rightarrow> int \<Rightarrow> 'a process \<Rightarrow> int \<times> 'a process" where
  "phdr_table_map_gnu_relro E phdr_table load_bias fd w =
     (case request E (Fstat fd) w of
        (None, w1) \<Rightarrow> (- 1, w1)
      | (Some file_size, w1) \<Rightarrow>
          (case (if sint file_size > 0
                 then request E (Mmap 0 file_size PROT_READ MAP_PRIVATE fd 0) w1
                 else (Some 0, w1)) of
             (None, w2) \<Rightarrow> (- 1, w2)
           | (Some temp_mapping, w2) \<Rightarrow>
               (case relro_segments E phdr_table load_bias fd file_size 0 w2 of
                  (False, w3) \<Rightarrow>
                    (- 1, w3\<lparr>trace := trace w3 @ [Munmap temp_mapping file_size]\<rparr>)
                | (True, w3) \<Rightarrow>
                    (0, w3\<lparr>trace := trace w3 @ [Munmap temp_mapping file_size]\<rparr>))))"

subsection \<open>Notions of the specification, and things to run the loader on\<close>

text \<open>
  The LOAD entries of a table, the least \<open>p_vaddr\<close> and the greatest
  \<open>p_vaddr + p_memsz\<close> among them: the words of the specification for
  \<open>compute_load_extent\<close>.
\<close>

definition load_entries :: "'a::len Elf_Phdr list \<Rightarrow> 'a Elf_Phdr list" where
  "load_entries phdr_table = filter (\<lambda>p. p_type p = PT_LOAD) phdr_table"

definition lowest_vaddr :: "'a::len Elf_Phdr list \<Rightarrow> 'a word" where
  "lowest_vaddr phdr_table = Min (p_vaddr ` set (load_entries phdr_table))"

definition highest_end :: "'a::len Elf_Phdr list \<Rightarrow> 'a word" where
  "highest_end phdr_table = Max ((\<lambda>p. p_vaddr p + p_memsz p) ` set (load_entries phdr_table))"

text \<open>
  A 32-bit image with the two segments of the example in the source's technical note, a
  kernel that grants every request (a mapping without a wanted address lands at
  \<open>0x70000000\<close>), and a reader and a process to start from.
\<close>

definition example_kernel :: "32 word effect list \<Rightarrow> 32 word effect \<Rightarrow> 32 word option" where
  "example_kernel past req =
     (case req of
        Mmap addr len prot fl fd off \<Rightarrow> Some (if addr = 0 then 0x70000000 else addr)
      | Pread64 fd n off \<Rightarrow> Some n
      | Fstat fd \<Rightarrow> Some 0x2000
      | Map_fragment fd base off sz \<Rightarrow> Some (0x60000000 + off)
      | _ \<Rightarrow> Some 0)"

definition example_phdrs :: "32 Elf_Phdr list" where
  "example_phdrs =
     [\<lparr>p_type = PT_LOAD, p_flags = PF_R OR PF_X, p_offset = 0, p_vaddr = 0x30000,
       p_filesz = 0x4000, p_memsz = 0x4000\<rparr>,
      \<lparr>p_type = PT_LOAD, p_flags = PF_R OR PF_W, p_offset = 0x4000, p_vaddr = 0x40000,
       p_filesz = 0x2000, p_memsz = 0x8000\<rparr>]"

definition example_ehdr :: "32 Elf_Ehdr" where
  "example_ehdr =
     \<lparr>e_ident = [0x7f, 0x45, 0x4c, 0x46, 1, 1, 1, 0, 0, 0, 0, 0, 0, 0, 0, 0],
      e_type = 3, e_machine = 40, e_version = 1, e_phoff = 52, e_shoff = 0x6000,
      e_phnum = 2, e_shnum = 0\<rparr>"

definition example_env :: "32 environment" where
  "example_env =
     \<lparr>syscall_nr = arm_NR, kernel = example_kernel, file_ehdr = example_ehdr,
      file_phdr = (\<lambda>off i. example_phdrs ! i),
      file_shdr = (\<lambda>off i. \<lparr>sh_type = 0, sh_offset = 0, sh_size = 0, sh_link = 0\<rparr>),
      image_e_phoff = (\<lambda>a. 52), same_page = (\<lambda>a off. True)\<rparr>"

definition example_reader :: "32 ElfReader" where
  "example_reader =
     \<lparr>m_name = ''libfoo.so'', m_fd = 3, m_file_offset = 0, m_file_size = 0x7000,
      m_header = example_ehdr, m_phdr_mmap = 0, m_phdr_table = example_phdrs,
      m_phdr_size = 0, m_shdr_table = [], m_dynamic = 0, m_strtab = 0, m_strtab_size = 0,
      m_load_start = 0, m_load_size = 0, m_load_bias = 0, m_loaded_phdr = 0\<rparr>"

definition example_process :: "32 process" where
  "example_process = \<lparr>linker_maps = maps_example32, trace = []\<rparr>"

text \<open>
  \<open>check_in_loaded_segment\<close> in the words of the specification, on numbers: the
  candidate address is not below the real start of some LOAD segment, and the candidate
  plus the byte length of the whole table is not above that start plus the segment's
  size in the file. The real start is \<open>p_vaddr + load_bias\<close> in the arithmetic of the
  address type, \<open>load_bias\<close> being a difference of two addresses. \<open>ends_representable\<close> says that these sums are addresses: neither
  the end of the table at the candidate nor the file-backed end of a LOAD segment passes
  the top of the address space. Then a table that starts with a PT_PHDR entry, one whose
  first LOAD entry has a non-zero file offset while a later one has offset zero, and one
  whose PT_PHDR entry puts the table in the last 32 bytes of the address space.
\<close>

definition table_length :: "'a::len ElfReader \<Rightarrow> nat" where
  "table_length r = length (m_phdr_table r) * unat (sizeof_Phdr :: 'a word)"

definition check_in_loaded_segment :: "'a::len ElfReader \<Rightarrow> 'a word \<Rightarrow> bool" where
  "check_in_loaded_segment r candidate =
     list_ex (\<lambda>phdr. p_type phdr = PT_LOAD
                \<and> unat (p_vaddr phdr + m_load_bias r) \<le> unat candidate
                \<and> unat candidate + table_length r
                     \<le> unat (p_vaddr phdr + m_load_bias r) + unat (p_filesz phdr))
       (m_phdr_table r)"

definition ends_representable :: "'a::len ElfReader \<Rightarrow> 'a word \<Rightarrow> bool" where
  "ends_representable r candidate =
     (unat candidate + table_length r < 2 ^ LENGTH('a)
      \<and> list_all (\<lambda>phdr. p_type phdr = PT_LOAD \<longrightarrow>
                    unat (p_vaddr phdr + m_load_bias r) + unat (p_filesz phdr) < 2 ^ LENGTH('a))
           (m_phdr_table r))"

definition phdrs_with_PT_PHDR :: "32 Elf_Phdr list" where
  "phdrs_with_PT_PHDR =
     \<lparr>p_type = PT_PHDR, p_flags = PF_R, p_offset = 52, p_vaddr = 0x30034,
       p_filesz = 0x60, p_memsz = 0x60\<rparr> # example_phdrs"

definition phdrs_late_zero_offset :: "32 Elf_Phdr list" where
  "phdrs_late_zero_offset =
     [\<lparr>p_type = PT_LOAD, p_flags = PF_R OR PF_W, p_offset = 0x1000, p_vaddr = 0x1000,
       p_filesz = 0x1000, p_memsz = 0x1000\<rparr>,
      \<lparr>p_type = PT_LOAD, p_flags = PF_R OR PF_X, p_offset = 0, p_vaddr = 0,
       p_filesz = 0x1000, p_memsz = 0x1000\<rparr>]"

definition phdrs_table_at_top :: "32 Elf_Phdr list" where
  "phdrs_table_at_top =
     \<lparr>p_type = PT_PHDR, p_flags = PF_R, p_offset = 52, p_vaddr = 0x9002FFE0,
       p_filesz = 0x60, p_memsz = 0x60\<rparr> # example_phdrs"

text \<open>
  For the protection calls: the LOAD entries that are not writable, in table order, and the
  \<open>mprotect\<close> request that \<open>_phdr_table_set_load_prot\<close> makes for one of them, over the
  pages from \<open>PAGE_START p_vaddr\<close> to \<open>PAGE_END (p_vaddr + p_memsz)\<close>. \<open>granted\<close>
  says that the kernel grants the request number \<open>i\<close> of a list when it comes after the
  requests before it. Then a table whose executable segment ends in the page where its
  writable segment begins, a table with two read-only segments around a writable one, a
  kernel that refuses every request and one that refuses the second \<open>mprotect\<close> only.
\<close>

definition nonwritable_loads :: "'a::len Elf_Phdr list \<Rightarrow> 'a Elf_Phdr list" where
  "nonwritable_loads phdr_table =
     filter (\<lambda>p. p_type p = PT_LOAD \<and> p_flags p AND PF_W = 0) phdr_table"

definition page_range_request :: "'a::len word \<Rightarrow> 32 word \<Rightarrow> 'a Elf_Phdr \<Rightarrow> 'a word effect" where
  "page_range_request load_bias extra p =
     Mprotect (PAGE_START (p_vaddr p) + load_bias)
       (PAGE_END (p_vaddr p + p_memsz p) + load_bias - (PAGE_START (p_vaddr p) + load_bias))
       (PFLAGS_TO_PROT (p_flags p) OR extra)"

definition granted ::
  "'a::len environment \<Rightarrow> 'a process \<Rightarrow> 'a word effect list \<Rightarrow> nat \<Rightarrow> bool" where
  "granted E w reqs i = (kernel E (trace w @ take i reqs) (reqs ! i) \<noteq> None)"

definition phdrs_shared_page :: "32 Elf_Phdr list" where
  "phdrs_shared_page =
     [\<lparr>p_type = PT_LOAD, p_flags = PF_R OR PF_X, p_offset = 0, p_vaddr = 0,
       p_filesz = 0x1800, p_memsz = 0x1800\<rparr>,
      \<lparr>p_type = PT_LOAD, p_flags = PF_R OR PF_W, p_offset = 0x1800, p_vaddr = 0x1800,
       p_filesz = 0x800, p_memsz = 0x800\<rparr>]"

definition phdrs_two_read_only :: "32 Elf_Phdr list" where
  "phdrs_two_read_only =
     [\<lparr>p_type = PT_LOAD, p_flags = PF_R OR PF_X, p_offset = 0, p_vaddr = 0,
       p_filesz = 0x1000, p_memsz = 0x1000\<rparr>,
      \<lparr>p_type = PT_LOAD, p_flags = PF_R OR PF_W, p_offset = 0x1000, p_vaddr = 0x1000,
       p_filesz = 0x1000, p_memsz = 0x1000\<rparr>,
      \<lparr>p_type = PT_LOAD, p_flags = PF_R, p_offset = 0x2000, p_vaddr = 0x2000,
       p_filesz = 0x1000, p_memsz = 0x1000\<rparr>]"

definition refusing_kernel :: "32 word effect list \<Rightarrow> 32 word effect \<Rightarrow> 32 word option" where
  "refusing_kernel past req = None"

definition second_mprotect_refused ::
  "32 word effect list \<Rightarrow> 32 word effect \<Rightarrow> 32 word option" where
  "second_mprotect_refused past req =
     (if list_ex (\<lambda>e. case e of Mprotect a l p \<Rightarrow> True | _ \<Rightarrow> False) past then None
      else Some 0)"

text \<open>
  For \<open>ReserveAddressSpace\<close>: the request for a fresh reservation (private, anonymous,
  no access, not fixed); an image named as the guest libc whose lowest address is 0;
  caller reservations, as hint and as explicit reservation, too small and large enough;
  a kernel that places every mapping at \<open>0x50000000\<close>. \<open>segment_effect\<close> marks what
  \<open>LoadSegments\<close> adds to the trace: mappings at fixed addresses and zero fills.
\<close>

definition reserve_request :: "'a::len word \<Rightarrow> 'a word \<Rightarrow> 'a word effect" where
  "reserve_request map_addr load_size =
     Mmap map_addr load_size PROT_NONE (MAP_PRIVATE OR MAP_ANONYMOUS) (- 1) 0"

definition libc_phdrs :: "32 Elf_Phdr list" where
  "libc_phdrs =
     [\<lparr>p_type = PT_LOAD, p_flags = PF_R OR PF_X, p_offset = 0, p_vaddr = 0,
       p_filesz = 0x5000, p_memsz = 0x5000\<rparr>,
      \<lparr>p_type = PT_LOAD, p_flags = PF_R OR PF_W, p_offset = 0x5000, p_vaddr = 0x6000,
       p_filesz = 0x1000, p_memsz = 0x2000\<rparr>]"

definition libc_reader :: "32 ElfReader" where
  "libc_reader = example_reader\<lparr>m_name := ''/system/lib/libc.so'', m_phdr_table := libc_phdrs\<rparr>"

text \<open>
  The file of that image, the reader as \<open>Load\<close> finds it (no program header table read
  yet), and the state once the two headers have been read on \<open>example_kernel\<close>.
\<close>

definition libc_env :: "32 environment" where
  "libc_env = example_env\<lparr>file_phdr := (\<lambda>off i. libc_phdrs ! i)\<rparr>"

definition libc_opened :: "32 state" where
  "libc_opened = (libc_reader\<lparr>m_phdr_table := []\<rparr>, example_process)"

definition libc_headers_read :: "32 state" where
  "libc_headers_read =
     (libc_reader\<lparr>m_phdr_mmap := 0x70000000, m_phdr_size := 0x1000\<rparr>,
      example_process\<lparr>trace := [Pread64 3 52 0, Mmap 0 0x1000 PROT_READ MAP_PRIVATE 3 0]\<rparr>)"

definition hint_small :: "32 android_dlextinfo" where
  "hint_small =
     \<lparr>flags = ANDROID_DLEXT_RESERVED_ADDRESS_HINT, reserved_addr = 0x50000000,
      reserved_size = 0x4000\<rparr>"

definition hint_large :: "32 android_dlextinfo" where
  "hint_large =
     \<lparr>flags = ANDROID_DLEXT_RESERVED_ADDRESS_HINT, reserved_addr = 0x50000000,
      reserved_size = 0x100000\<rparr>"

definition explicit_small :: "32 android_dlextinfo" where
  "explicit_small =
     \<lparr>flags = ANDROID_DLEXT_RESERVED_ADDRESS, reserved_addr = 0x50000000,
      reserved_size = 0x4000\<rparr>"

definition explicit_large :: "32 android_dlextinfo" where
  "explicit_large =
     \<lparr>flags = ANDROID_DLEXT_RESERVED_ADDRESS, reserved_addr = 0x50000000,
      reserved_size = 0x100000\<rparr>"

definition elsewhere_kernel :: "32 word effect list \<Rightarrow> 32 word effect \<Rightarrow> 32 word option" where
  "elsewhere_kernel past req = Some 0x50000000"

fun segment_effect :: "'a::len word effect \<Rightarrow> bool" where
  "segment_effect (Mmap addr len prot fl fd off) = (fl AND MAP_FIXED \<noteq> 0)"
| "segment_effect (Memset addr len) = True"
| "segment_effect _ = False"

text \<open>
  Section tables for \<open>ReadDynamicSection\<close>: one whose dynamic section and string table
  lie inside the example file of \<open>0x7000\<close> bytes, one whose sections lie beyond its end.
\<close>

definition shdrs_beyond_file :: "32 Elf_Shdr list" where
  "shdrs_beyond_file =
     [\<lparr>sh_type = 0, sh_offset = 0, sh_size = 0, sh_link = 0\<rparr>,
      \<lparr>sh_type = SHT_DYNAMIC, sh_offset = 0x10000, sh_size = 0x80, sh_link = 2\<rparr>,
      \<lparr>sh_type = SHT_STRTAB, sh_offset = 0x20000, sh_size = 0x40, sh_link = 0\<rparr>]"

definition shdrs_in_file :: "32 Elf_Shdr list" where
  "shdrs_in_file =
     [\<lparr>sh_type = 0, sh_offset = 0, sh_size = 0, sh_link = 0\<rparr>,
      \<lparr>sh_type = SHT_STRTAB, sh_offset = 0x5000, sh_size = 0x40, sh_link = 0\<rparr>,
      \<lparr>sh_type = SHT_DYNAMIC, sh_offset = 0x5800, sh_size = 0x80, sh_link = 1\<rparr>]"

text \<open>
  For \<open>phdr_table_map_gnu_relro\<close>: two relro segments of one page each, and an
  environment in which each of the two pages holds the bytes of its own page of the relro
  file (the first at offset 0, the second at offset \<open>0x1000\<close>) and of no other.
\<close>

definition relro_phdrs :: "32 Elf_Phdr list" where
  "relro_phdrs =
     [\<lparr>p_type = PT_GNU_RELRO, p_flags = PF_R, p_offset = 0x1000, p_vaddr = 0x1000,
       p_filesz = 0x1000, p_memsz = 0x1000\<rparr>,
      \<lparr>p_type = PT_GNU_RELRO, p_flags = PF_R, p_offset = 0x3000, p_vaddr = 0x3000,
       p_filesz = 0x1000, p_memsz = 0x1000\<rparr>]"

definition relro_env :: "32 environment" where
  "relro_env =
     example_env\<lparr>same_page := (\<lambda>a off. (a, off) = (0x40001000, 0)
                                     \<or> (a, off) = (0x40003000, 0x1000))\<rparr>"

section \<open>Properties of the syscall filter\<close>

lemma run_LD [simp]:
  "bpf_run d A (BPF_STMT (BPF_LD OR BPF_W OR BPF_ABS) off # p) =
     (case seccomp_load d off of None \<Rightarrow> None | Some v \<Rightarrow> bpf_run d v p)"
  by (simp add: BPF_STMT_def)

lemma run_RET [simp]:
  "bpf_run d A (BPF_STMT (BPF_RET OR BPF_K) v # p) = Some v"
  by (simp add: BPF_STMT_def BPF_LD_def BPF_JMP_def BPF_RET_def BPF_W_def
  BPF_ABS_def BPF_JEQ_def BPF_JGT_def BPF_JGE_def BPF_K_def)

lemma run_JEQ [simp]:
  "bpf_run d A (BPF_JUMP (BPF_JMP OR BPF_JEQ OR BPF_K) v t f # p) =
     bpf_run d A (drop (unat (if A = v then t else f)) p)"
  by (simp add: BPF_JUMP_def BPF_LD_def BPF_JMP_def BPF_RET_def BPF_W_def
  BPF_ABS_def BPF_JEQ_def BPF_JGT_def BPF_JGE_def BPF_K_def)

lemma run_JGT [simp]:
  "bpf_run d A (BPF_JUMP (BPF_JMP OR BPF_JGT OR BPF_K) v t f # p) =
     bpf_run d A (drop (unat (if A > v then t else f)) p)"
  by (simp add: BPF_JUMP_def BPF_LD_def BPF_JMP_def BPF_RET_def BPF_W_def
  BPF_ABS_def BPF_JEQ_def BPF_JGT_def BPF_JGE_def BPF_K_def)

lemma run_JGE [simp]:
  "bpf_run d A (BPF_JUMP (BPF_JMP OR BPF_JGE OR BPF_K) v t f # p) =
     bpf_run d A (drop (unat (if A \<ge> v then t else f)) p)"
  by (simp add: BPF_JUMP_def BPF_LD_def BPF_JMP_def BPF_RET_def BPF_W_def
  BPF_ABS_def BPF_JEQ_def BPF_JGT_def BPF_JGE_def BPF_K_def)

lemma load_simps [simp]:
  "seccomp_load d offsetof_nr = Some (nr d)"
  "seccomp_load d offsetof_arch = Some (arch d)"
  "seccomp_load d offsetof_instruction_pointer = Some (lo32 (instruction_pointer d))"
  "seccomp_load d (offsetof_instruction_pointer + 4) = Some (hi32 (instruction_pointer d))"
  by (simp_all add: seccomp_load_def offsetof_nr_def offsetof_arch_def offsetof_instruction_pointer_def)

declare bpf_run.simps(2) [simp del]



lemma arch32:
  assumes "\<And>A'. bpf_run d A' rest = r"
  shows "bpf_run d A (filter_arch32 @ rest) =
     (if arch d = AUDIT_ARCH_ARM then r else Some SECCOMP_RET_ALLOW)"
  by (simp add: filter_arch32_def assms)

lemma low32:
  assumes "\<And>A'. bpf_run d A' rest = r"
  shows "bpf_run d A (filter_low32 @ rest) =
     (if lo32 (instruction_pointer d) < 0x400000 then Some SECCOMP_RET_ALLOW else r)"
  by (auto simp add: filter_low32_def assms)

lemma window32:
  assumes "\<And>A'. bpf_run d A' rest = r"
  shows "bpf_run d A (filter_window32 maps @ rest) =
     (if prelinker_addr maps \<le> lo32 (instruction_pointer d)
          \<and> lo32 (instruction_pointer d) < linker_maps_last_addr maps
      then Some SECCOMP_RET_ALLOW else r)"
  by (auto simp add: filter_window32_def assms)

lemma arch64:
  assumes "\<And>A'. bpf_run d A' rest = r"
  shows "bpf_run d A (filter_arch64 @ rest) =
     (if arch d = AUDIT_ARCH_AARCH64 then r else Some SECCOMP_RET_ALLOW)"
  by (simp add: filter_arch64_def assms)

lemma low64:
  assumes "\<And>A'. bpf_run d A' rest = r"
  shows "bpf_run d A (filter_low64 @ rest) =
     (if hi32 (instruction_pointer d) = 0 \<and> lo32 (instruction_pointer d) < 0x500000
      then Some SECCOMP_RET_ALLOW else r)"
  by (auto simp add: filter_low64_def assms)

lemma window64:
  assumes "\<And>A'. bpf_run d A' rest = r"
  shows "bpf_run d A (filter_window64 maps @ rest) =
     (if (hi32 (prelinker_addr maps) < hi32 (instruction_pointer d)
            \<or> hi32 (instruction_pointer d) = hi32 (prelinker_addr maps)
              \<and> lo32 (prelinker_addr maps) \<le> lo32 (instruction_pointer d))
          \<and> hi32 (instruction_pointer d) = hi32 (linker_maps_last_addr maps)
          \<and> lo32 (instruction_pointer d) < lo32 (linker_maps_last_addr maps)
      then Some SECCOMP_RET_ALLOW else r)"
proof -
  have k: "ucast (w AND 0xFFFFFFFF) = lo32 w" "ucast (drop_bit 32 w) = hi32 w" for w :: "64 word"
  proof -
    have m: "(0xFFFFFFFF :: 64 word) = mask 32" by (simp add: mask_eq_exp_minus_1)
    show "ucast (w AND 0xFFFFFFFF) = lo32 w"
      unfolding m lo32_def by (rule bit_word_eqI) (auto simp: bit_simps)
    show "ucast (drop_bit 32 w) = hi32 w" by (simp add: hi32_def)
  qed
  show ?thesis
  by (auto simp add: filter_window64_def assms k)
qed

lemma trap_on_run:
  "bpf_run d A (trap_on ns @ rest) =
     (if A \<in> set ns then Some SECCOMP_RET_TRAP else bpf_run d A rest)"
  by (induction ns) (auto simp: trap_on_def)


lemma filter_syscalls32_run:
  "bpf_run d A (filter_syscalls32 NR @ rest) =
     (if A \<in> NR ` set denied_only32 then Some SECCOMP_RET_TRAP else bpf_run d A rest)"
proof -
  have "filter_syscalls32 NR = trap_on (map NR denied_only32)"
    by (simp add: filter_syscalls32_def trap_on_def denied_only32_def)
  then show ?thesis
    by (simp add: trap_on_run)
qed

lemma filter_syscalls64_run:
  "bpf_run d A (filter_syscalls64 NR @ rest) =
     (if A \<in> NR ` set denied_only64 then Some SECCOMP_RET_TRAP else bpf_run d A rest)"
proof -
  have "filter_syscalls64 NR = trap_on (map NR denied_only64)"
    by (simp add: filter_syscalls64_def trap_on_def denied_only64_def)
  then show ?thesis
    by (simp add: trap_on_run)
qed

lemma filter_syscalls_run:
  "bpf_run d A (filter_syscalls NR @ rest) =
     (if nr d \<in> NR ` set denied_common then Some SECCOMP_RET_TRAP else bpf_run d (nr d) rest)"
proof -
  have "filter_syscalls NR =
          BPF_STMT (BPF_LD OR BPF_W OR BPF_ABS) offsetof_nr # trap_on (map NR denied_common)"
    by (simp add: filter_syscalls_def trap_on_def denied_common_def)
  then show ?thesis
    by (simp add: trap_on_run)
qed

lemma syscall_checks32:
  "bpf_run d A (filter_syscalls NR @ filter_syscalls32 NR @ filter_tail) =
     Some (if nr d \<in> NR ` set denied32 then SECCOMP_RET_TRAP else SECCOMP_RET_ALLOW)"
  by (simp add: filter_syscalls_run filter_syscalls32_run filter_tail_def denied32_def image_Un)

lemma syscall_checks64:
  "bpf_run d A (filter_syscalls NR @ filter_syscalls64 NR @ filter_tail) =
     Some (if nr d \<in> NR ` set denied64 then SECCOMP_RET_TRAP else SECCOMP_RET_ALLOW)"
  by (simp add: filter_syscalls_run filter_syscalls64_run filter_tail_def denied64_def image_Un)

lemma seccomp_filter32_run:
  "seccomp_run (seccomp_filter32 NR maps) d =
     Some (if arch d \<noteq> AUDIT_ARCH_ARM then SECCOMP_RET_ALLOW
           else if lo32 (instruction_pointer d) < 0x400000 then SECCOMP_RET_ALLOW
           else if in_window maps (lo32 (instruction_pointer d)) then SECCOMP_RET_ALLOW
           else if nr d \<in> NR ` set denied32 then SECCOMP_RET_TRAP
           else SECCOMP_RET_ALLOW)"
  unfolding seccomp_run_def seccomp_filter32_def
  by (simp add: arch32 [OF low32 [OF window32 [OF syscall_checks32]]] in_window_def)

lemma unat_hi:
  "unat (ucast (drop_bit 32 w) :: 32 word) = unat (w :: 64 word) div 2 ^ 32"
proof -
  have "unat w < 2 ^ 64" using unsigned_less [of w] by simp
  then have small: "unat w div 2 ^ 32 < 2 ^ 32" by (simp add: less_mult_imp_div_less)
  have d: "unat (drop_bit 32 w) = unat w div 2 ^ 32"
    unfolding unat_drop_bit_eq by (simp add: drop_bit_eq_div)
  have "unat (ucast (drop_bit 32 w) :: 32 word) = unat (drop_bit 32 w) mod 2 ^ 32"
    by (simp add: unsigned_ucast_eq take_bit_eq_mod)
  then show ?thesis using small by (simp add: d)
qed

lemma unat_lo:
  "unat (ucast w :: 32 word) = unat (w :: 64 word) mod 2 ^ 32"
  by (simp add: unsigned_ucast_eq take_bit_eq_mod)

lemma nat_le_div_mod:
  fixes x y q :: nat
  assumes q: "0 < q"
  shows "(x \<le> y) = (x div q < y div q \<or> x div q = y div q \<and> x mod q \<le> y mod q)"
proof -
  define a b c e where "a = x div q" and "b = x mod q" and "c = y div q" and "e = y mod q"
  have x: "x = a * q + b" and y: "y = c * q + e" and b: "b < q" and e: "e < q"
    using q by (simp_all add: a_def b_def c_def e_def)
  consider "a < c" | "a = c" | "c < a" by linarith
  then have "(x \<le> y) = (a < c \<or> a = c \<and> b \<le> e)"
  proof cases
    case 1
    then have "(a + 1) * q \<le> c * q" by (intro mult_le_mono1) simp
    then have "x \<le> y" using x y b by (simp add: algebra_simps)
    then show ?thesis using 1 by simp
  next
    case 2
    then show ?thesis using x y by simp
  next
    case 3
    then have "(c + 1) * q \<le> a * q" by (intro mult_le_mono1) simp
    then have "y < x" using x y e by (simp add: algebra_simps)
    then show ?thesis using 3 by simp
  qed
  then show ?thesis by (simp add: a_def b_def c_def e_def)
qed

lemma le_halves:
  "(a \<le> b) = (hi32 a < hi32 b \<or> hi32 a = hi32 b \<and> lo32 a \<le> lo32 b)"
proof -
  have h: "unat (hi32 w) = unat w div 2 ^ 32" for w
    by (simp only: hi32_def unat_hi)
  have l: "unat (lo32 w) = unat w mod 2 ^ 32" for w
    by (simp only: lo32_def unat_lo)
  show ?thesis
    using nat_le_div_mod [of "2 ^ 32" "unat a" "unat b"]
    by (simp add: word_le_nat_alt word_less_nat_alt word_unat_eq_iff h l)
qed

lemma less_halves:
  "(a < b) = (hi32 a < hi32 b \<or> hi32 a = hi32 b \<and> lo32 a < lo32 b)"
  using le_halves [of b a] by (auto simp: not_le [symmetric])

lemma low_threshold_halves:
  "(w < 0x500000) = (hi32 w = 0 \<and> lo32 w < 0x500000)"
  using less_halves [of w "0x500000"] by (simp add: hi32_def lo32_def)


lemma seccomp_filter64_run:
  "seccomp_run (seccomp_filter64 NR maps) d =
     Some (if arch d \<noteq> AUDIT_ARCH_AARCH64 then SECCOMP_RET_ALLOW
           else if instruction_pointer d < 0x500000 then SECCOMP_RET_ALLOW
           else if in_window maps (instruction_pointer d)
                   \<and> hi32 (instruction_pointer d) = hi32 (linker_maps_last_addr maps)
             then SECCOMP_RET_ALLOW
           else if nr d \<in> NR ` set denied64 then SECCOMP_RET_TRAP
           else SECCOMP_RET_ALLOW)"
proof -
  let ?ip = "instruction_pointer d"
  have w: "((hi32 (prelinker_addr maps) < hi32 ?ip
              \<or> hi32 ?ip = hi32 (prelinker_addr maps) \<and> lo32 (prelinker_addr maps) \<le> lo32 ?ip)
            \<and> hi32 ?ip = hi32 (linker_maps_last_addr maps)
            \<and> lo32 ?ip < lo32 (linker_maps_last_addr maps))
         = (in_window maps ?ip \<and> hi32 ?ip = hi32 (linker_maps_last_addr maps))"
    unfolding in_window_def le_halves [of "prelinker_addr maps"] less_halves [of ?ip]
    by auto
  show ?thesis
    unfolding seccomp_run_def seccomp_filter64_def
    by (simp only: arch64 [OF low64 [OF window64 [OF syscall_checks64]]] w
          low_threshold_halves [symmetric]) simp
qed

lemmas example_simps = maps_example32_def maps_example64_def maps_straddle64_def in_window_def
  lo32_def hi32_def denied32_def denied64_def denied_common_def denied_only32_def denied_only64_def
  SECCOMP_RET_ALLOW_def SECCOMP_RET_TRAP_def AUDIT_ARCH_ARM_def AUDIT_ARCH_AARCH64_def
  EM_ARM_def EM_AARCH64_def AUDIT_ARCH_LE_def AUDIT_ARCH_64BIT_def

subsection \<open>Claims C1 and C2\<close>

text \<open>
  Claim C1, as the filter decides it. For a syscall whose architecture token is the
  build's and whose instruction pointer is at or above the low-address threshold
  (\<open>0x400000\<close> in the 32-bit build, \<open>0x500000\<close> in the 64-bit build): if the
  instruction pointer lies inside the window \<open>[PRELINKER_ADDR, LINKER_MAPS_LAST_ADDR)\<close>
  the filter returns ALLOW whatever the syscall number; if it lies outside, the filter
  returns TRAP when the syscall number is one of the build's checked numbers and ALLOW
  otherwise. In the 64-bit build this is stated for the pointers that are outside the
  window or share their high half with \<open>LINKER_MAPS_LAST_ADDR\<close>.
\<close>

theorem seccomp_filter_decision:
  "(arch d = AUDIT_ARCH_ARM \<and> 0x400000 \<le> lo32 (instruction_pointer d) \<longrightarrow>
      seccomp_run (seccomp_filter32 NR m32) d =
        Some (if in_window m32 (lo32 (instruction_pointer d)) then SECCOMP_RET_ALLOW
              else if nr d \<in> NR ` set denied32 then SECCOMP_RET_TRAP
              else SECCOMP_RET_ALLOW))
   \<and> (arch d = AUDIT_ARCH_AARCH64 \<and> 0x500000 \<le> instruction_pointer d
       \<and> (in_window m64 (instruction_pointer d) \<longrightarrow>
            hi32 (instruction_pointer d) = hi32 (linker_maps_last_addr m64)) \<longrightarrow>
      seccomp_run (seccomp_filter64 NR m64) d =
        Some (if in_window m64 (instruction_pointer d) then SECCOMP_RET_ALLOW
              else if nr d \<in> NR ` set denied64 then SECCOMP_RET_TRAP
              else SECCOMP_RET_ALLOW))"
  by (auto simp add: seccomp_filter32_run seccomp_filter64_run not_less [symmetric])

text \<open>
  The decision at four syscalls: \<open>openat\<close> from inside and from just below the 32-bit
  window, \<open>execve\<close> from inside and from just above the 64-bit window.
\<close>

theorem seccomp_filter_decision_witness:
  "seccomp_run (seccomp_filter32 arm_NR maps_example32)
      \<lparr>nr = arm_NR SYS_openat, arch = AUDIT_ARCH_ARM, instruction_pointer = 0xbc9e000a, args = []\<rparr>
     = Some SECCOMP_RET_ALLOW
   \<and> seccomp_run (seccomp_filter32 arm_NR maps_example32)
      \<lparr>nr = arm_NR SYS_openat, arch = AUDIT_ARCH_ARM, instruction_pointer = 0xbc9dffff, args = []\<rparr>
     = Some SECCOMP_RET_TRAP
   \<and> seccomp_run (seccomp_filter64 aarch64_NR maps_example64)
      \<lparr>nr = aarch64_NR SYS_execve, arch = AUDIT_ARCH_AARCH64, instruction_pointer = 0x782EEF000a, args = []\<rparr>
     = Some SECCOMP_RET_ALLOW
   \<and> seccomp_run (seccomp_filter64 aarch64_NR maps_example64)
      \<lparr>nr = aarch64_NR SYS_execve, arch = AUDIT_ARCH_AARCH64, instruction_pointer = 0x782F2A0001, args = []\<rparr>
     = Some SECCOMP_RET_TRAP"
  using
    seccomp_filter_decision [of "\<lparr>nr = arm_NR SYS_openat, arch = AUDIT_ARCH_ARM,
        instruction_pointer = 0xbc9e000a, args = []\<rparr>" arm_NR maps_example32 maps_example64]
    seccomp_filter_decision [of "\<lparr>nr = arm_NR SYS_openat, arch = AUDIT_ARCH_ARM,
        instruction_pointer = 0xbc9dffff, args = []\<rparr>" arm_NR maps_example32 maps_example64]
    seccomp_filter_decision [of "\<lparr>nr = aarch64_NR SYS_execve, arch = AUDIT_ARCH_AARCH64,
        instruction_pointer = 0x782EEF000a, args = []\<rparr>" aarch64_NR maps_example32 maps_example64]
    seccomp_filter_decision [of "\<lparr>nr = aarch64_NR SYS_execve, arch = AUDIT_ARCH_AARCH64,
        instruction_pointer = 0x782F2A0001, args = []\<rparr>" aarch64_NR maps_example32 maps_example64]
  by (simp add: example_simps)

text \<open>
  Claim C1 as the specification words it (inside the window a checked syscall traps,
  outside everything is allowed) fails on the 32-bit filter: \<open>openat\<close> issued ten bytes
  into the window is allowed, and \<open>execve\<close> issued one byte past its end traps.
\<close>

theorem seccomp_window_counterexample:
  "in_window maps_example32 0xbc9e000a \<and> SYS_openat \<in> set denied32
   \<and> seccomp_run (seccomp_filter32 arm_NR maps_example32)
        \<lparr>nr = arm_NR SYS_openat, arch = AUDIT_ARCH_ARM, instruction_pointer = 0xbc9e000a, args = []\<rparr>
       = Some SECCOMP_RET_ALLOW
   \<and> \<not> in_window maps_example32 0xbcd90001
   \<and> seccomp_run (seccomp_filter32 arm_NR maps_example32)
        \<lparr>nr = arm_NR SYS_execve, arch = AUDIT_ARCH_ARM, instruction_pointer = 0xbcd90001, args = []\<rparr>
       = Some SECCOMP_RET_TRAP"
  by (simp add: seccomp_filter32_run example_simps)

text \<open>
  Claim C2: the split comparison of the 64-bit filter should classify every instruction
  pointer as the direct comparison \<open>in_window\<close> does. It does not when the window
  crosses a 4 GiB boundary: a pointer inside the window whose high half is below that of
  \<open>LINKER_MAPS_LAST_ADDR\<close> leaves the window block without its ALLOW, and \<open>openat\<close>
  from there traps; a pointer placed the same way in a window whose bounds share their high
  half is allowed.
\<close>

theorem window64_split_differs:
  "in_window maps_straddle64 0x77FFF00010
   \<and> bpf_run \<lparr>nr = aarch64_NR SYS_openat, arch = AUDIT_ARCH_AARCH64,
         instruction_pointer = 0x77FFF00010, args = []\<rparr> 0 (filter_window64 maps_straddle64) = None
   \<and> seccomp_run (seccomp_filter64 aarch64_NR maps_straddle64)
        \<lparr>nr = aarch64_NR SYS_openat, arch = AUDIT_ARCH_AARCH64,
         instruction_pointer = 0x77FFF00010, args = []\<rparr> = Some SECCOMP_RET_TRAP
   \<and> in_window maps_example64 0x782EEF0010
   \<and> seccomp_run (seccomp_filter64 aarch64_NR maps_example64)
        \<lparr>nr = aarch64_NR SYS_openat, arch = AUDIT_ARCH_AARCH64,
         instruction_pointer = 0x782EEF0010, args = []\<rparr> = Some SECCOMP_RET_ALLOW"
  by (simp add: seccomp_filter64_run example_simps filter_window64_def)

section \<open>Properties of the loader\<close>

subsection \<open>Claim C6: the load extent\<close>

lemma load_size_scan_fold:
  "load_size_scan phdr_table (mn, mx, found) =
     (fold min (map p_vaddr (load_entries phdr_table)) mn,
      fold max (map (\<lambda>p. p_vaddr p + p_memsz p) (load_entries phdr_table)) mx,
      found \<or> load_entries phdr_table \<noteq> [])"
proof (induction phdr_table arbitrary: mn mx found)
  case Nil
  then show ?case by (simp add: load_entries_def)
next
  case (Cons p ps)
  have mn: "(if p_vaddr p < mn then p_vaddr p else mn) = min (p_vaddr p) mn"
    by (auto simp: min_def)
  have mx: "(if mx < p_vaddr p + p_memsz p then p_vaddr p + p_memsz p else mx)
              = max (p_vaddr p + p_memsz p) mx"
    by (auto simp: max_def)
  show ?case
    using Cons [of mn mx found] Cons [of "min (p_vaddr p) mn" "max (p_vaddr p + p_memsz p) mx" True]
    by (simp add: load_entries_def mn mx)
qed

lemma fold_min_Min: "fold min xs a = Min (insert a (set xs))" for a :: "'b::linorder"
  using Min.set_eq_fold [of a xs] by simp

lemma fold_max_Max: "fold max xs a = Max (insert a (set xs))" for a :: "'b::linorder"
  using Max.set_eq_fold [of a xs] by simp

lemma Min_insert_top: "xs \<noteq> [] \<Longrightarrow> Min (insert (- 1) (set xs)) = Min (set xs)"
  for xs :: "'a::len word list"
proof -
  assume "xs \<noteq> []"
  then have "Min (insert (- 1) (set xs)) = min (- 1) (Min (set xs))"
    by (intro Min_insert) simp_all
  then show ?thesis
    by (simp only: min.absorb2 [OF word_n1_ge])
qed

lemma Max_insert_zero: "xs \<noteq> [] \<Longrightarrow> Max (insert 0 (set xs)) = Max (set xs)"
  for xs :: "'a::len word list"
proof -
  assume "xs \<noteq> []"
  then have "Max (insert 0 (set xs)) = max 0 (Max (set xs))"
    by (intro Max_insert) simp_all
  then show ?thesis
    by (simp only: max.absorb2 [OF word_zero_le])
qed

lemma PAGE_END_zero: "PAGE_END (0 :: 'a::len word) = 0"
  by (simp add: PAGE_END_def PAGE_START_def PAGE_MASK_def)

lemma PAGE_START_zero: "PAGE_START (0 :: 'a::len word) = 0"
  by (simp add: PAGE_START_def)

lemma load_size_loads:
  "load_entries phdr_table \<noteq> [] \<Longrightarrow>
     phdr_table_get_load_size phdr_table =
       (PAGE_END (highest_end phdr_table) - PAGE_START (lowest_vaddr phdr_table),
        PAGE_START (lowest_vaddr phdr_table), PAGE_END (highest_end phdr_table))"
  using Min_insert_top [of "map p_vaddr (load_entries phdr_table)"]
    Max_insert_zero [of "map (\<lambda>p. p_vaddr p + p_memsz p) (load_entries phdr_table)"]
  by (simp add: phdr_table_get_load_size_def load_size_scan_fold fold_min_Min fold_max_Max
      lowest_vaddr_def highest_end_def Let_def)

lemma load_size_no_loads:
  "load_entries phdr_table = [] \<Longrightarrow> phdr_table_get_load_size phdr_table = (0, 0, 0)"
  by (simp add: phdr_table_get_load_size_def load_size_scan_fold PAGE_END_zero PAGE_START_zero)


lemma PAGE_START_le: "PAGE_START x \<le> x"
  by (simp add: PAGE_START_def word_and_le2)

lemma load_extent_contains:
  fixes phdr_table :: "'a::len Elf_Phdr list"
  assumes p: "p \<in> set (load_entries phdr_table)"
    and nowrap: "unat (p_vaddr p) + unat (p_memsz p) < 2 ^ LENGTH('a)"
    and round: "highest_end phdr_table \<le> PAGE_END (highest_end phdr_table)"
  shows "case phdr_table_get_load_size phdr_table of
           (extent, min_vaddr, max_vaddr) \<Rightarrow>
             unat min_vaddr \<le> unat (p_vaddr p)
             \<and> unat (p_vaddr p) + unat (p_memsz p) \<le> unat min_vaddr + unat extent"
proof -
  let ?m = "lowest_vaddr phdr_table" and ?M = "highest_end phdr_table"
  have ne: "load_entries phdr_table \<noteq> []" using p by auto
  have lo: "?m \<le> p_vaddr p"
    unfolding lowest_vaddr_def using p by (intro Min_le) auto
  have hi: "p_vaddr p + p_memsz p \<le> ?M"
    unfolding highest_end_def using p by (intro Max_ge) auto
  have start: "PAGE_START ?m \<le> p_vaddr p"
    using PAGE_START_le [of ?m] lo by (rule order_trans)
  have sum: "unat (p_vaddr p + p_memsz p) = unat (p_vaddr p) + unat (p_memsz p)"
    using nowrap by (simp add: unat_add_lem)
  have "p_vaddr p \<le> p_vaddr p + p_memsz p"
    using sum by (simp add: word_le_nat_alt)
  then have chain: "PAGE_START ?m \<le> PAGE_END ?M"
    using start hi round by (meson order_trans)
  have ext: "unat (PAGE_END ?M - PAGE_START ?m) = unat (PAGE_END ?M) - unat (PAGE_START ?m)"
    using chain by (simp add: unat_sub)
  have "unat (p_vaddr p) + unat (p_memsz p) \<le> unat (PAGE_END ?M)"
    using hi round sum by (metis order_trans word_le_nat_alt)
  moreover have "unat (PAGE_START ?m) \<le> unat (PAGE_END ?M)"
    using chain by (simp add: word_le_nat_alt)
  moreover have "unat (PAGE_START ?m) \<le> unat (p_vaddr p)"
    using start by (simp add: word_le_nat_alt)
  ultimately show ?thesis
    by (simp add: load_size_loads [OF ne] ext)
qed

lemma reserve_no_loads:
  "load_entries phdr_table = [] \<Longrightarrow>
     fst (ReserveAddressSpace E extinfo (r\<lparr>m_phdr_table := phdr_table\<rparr>, w))
       = Inl No_loadable_segments"
  by (simp add: ReserveAddressSpace_def load_size_no_loads)

text \<open>
  Claim C6. \<open>phdr_table_get_load_size\<close> returns as \<open>min_vaddr\<close> the least \<open>p_vaddr\<close>
  of the LOAD entries rounded down to its page, and as extent the greatest
  \<open>p_vaddr + p_memsz\<close> rounded up to a page minus that minimum, all in the arithmetic of
  the address width. A LOAD entry whose end \<open>p_vaddr + p_memsz\<close> does not wrap around
  lies within \<open>[min_vaddr, min_vaddr + extent)\<close>, provided rounding the greatest end up
  does not wrap either. A table without a LOAD entry has extent zero, and
  \<open>ReserveAddressSpace\<close> fails on it with "no loadable segments".
\<close>

theorem load_extent:
  fixes phdr_table :: "'a::len Elf_Phdr list"
  shows
    "(load_entries phdr_table \<noteq> [] \<longrightarrow>
        phdr_table_get_load_size phdr_table =
          (PAGE_END (highest_end phdr_table) - PAGE_START (lowest_vaddr phdr_table),
           PAGE_START (lowest_vaddr phdr_table), PAGE_END (highest_end phdr_table)))
     \<and> (\<forall>p \<in> set (load_entries phdr_table).
          unat (p_vaddr p) + unat (p_memsz p) < 2 ^ LENGTH('a)
          \<and> highest_end phdr_table \<le> PAGE_END (highest_end phdr_table) \<longrightarrow>
          (case phdr_table_get_load_size phdr_table of
             (extent, min_vaddr, max_vaddr) \<Rightarrow>
               unat min_vaddr \<le> unat (p_vaddr p)
               \<and> unat (p_vaddr p) + unat (p_memsz p) \<le> unat min_vaddr + unat extent))
     \<and> (load_entries phdr_table = [] \<longrightarrow>
          fst (phdr_table_get_load_size phdr_table) = 0
          \<and> fst (ReserveAddressSpace E extinfo (r\<lparr>m_phdr_table := phdr_table\<rparr>, w))
              = Inl No_loadable_segments)"
  using load_size_loads [of phdr_table] load_extent_contains [of _ phdr_table]
    load_size_no_loads [of phdr_table] reserve_no_loads [of phdr_table E extinfo r w]
  by auto

lemmas example_defs = example_phdrs_def load_entries_def lowest_vaddr_def highest_end_def
  PT_LOAD_def PT_DYNAMIC_def PF_R_def PF_W_def PF_X_def PAGE_END_def PAGE_START_def PAGE_MASK_def PAGE_SIZE_def

text \<open>
  The technical note's image has extent \<open>0x18000\<close> from \<open>0x30000\<close> and holds both
  segments; a table with only a DYNAMIC entry is refused.
\<close>

theorem load_extent_witness:
  "phdr_table_get_load_size example_phdrs = (0x18000, 0x30000, 0x48000)
   \<and> list_all (\<lambda>p. 0x30000 \<le> unat (p_vaddr p)
                       \<and> unat (p_vaddr p) + unat (p_memsz p) \<le> 0x30000 + 0x18000)
         example_phdrs
   \<and> fst (ReserveAddressSpace example_env None
            (example_reader\<lparr>m_phdr_table := [\<lparr>p_type = PT_DYNAMIC, p_flags = PF_R, p_offset = 0,
                p_vaddr = 0x1000, p_filesz = 0x100, p_memsz = 0x100\<rparr>]\<rparr>, example_process))
       = Inl No_loadable_segments"
  using load_extent [of example_phdrs example_env None example_reader example_process]
    load_extent [of "[\<lparr>p_type = PT_DYNAMIC, p_flags = PF_R, p_offset = 0,
                p_vaddr = 0x1000, p_filesz = 0x100, p_memsz = 0x100\<rparr>]" example_env None example_reader example_process]
  by (simp add: example_defs)

text \<open>
  Claim C6 as worded holds "for every program header table". With a segment that ends
  exactly at the top of the 32-bit address space its end wraps to 0: the extent is
  \<open>[0, 0x2000)\<close> and the segment at \<open>0xFFFFF000\<close> lies outside it.
\<close>

theorem load_extent_counterexample:
  "phdr_table_get_load_size
     [\<lparr>p_type = PT_LOAD, p_flags = PF_R OR PF_X, p_offset = 0, p_vaddr = 0,
       p_filesz = 0x2000, p_memsz = 0x2000\<rparr>,
      \<lparr>p_type = PT_LOAD, p_flags = PF_R OR PF_W, p_offset = 0x2000, p_vaddr = 0xFFFFF000,
       p_filesz = 0x1000, p_memsz = 0x1000 :: 32 word\<rparr>]
     = (0x2000, 0, 0x2000)
   \<and> \<not> unat (0xFFFFF000 :: 32 word) < unat (0 :: 32 word) + unat (0x2000 :: 32 word)"
  by (simp add: phdr_table_get_load_size_def example_defs word_gt_0)

subsection \<open>Claim C5: the loaded program header table\<close>

lemma table_length_unat:
  assumes "table_length r < 2 ^ LENGTH('a)"
  shows "unat (m_phdr_num r * sizeof_Phdr :: 'a::len word) = table_length r"
proof -
  have "m_phdr_num r * (sizeof_Phdr :: 'a word) = of_nat (table_length r)"
    by (simp add: m_phdr_num_def table_length_def)
  then show ?thesis using assms by (simp add: unat_of_nat)
qed

lemma table_end_unat:
  assumes "unat loaded + table_length r < 2 ^ LENGTH('a)"
  shows "unat (loaded + m_phdr_num r * sizeof_Phdr :: 'a::len word) = unat loaded + table_length r"
proof -
  have "table_length r < 2 ^ LENGTH('a)" using assms by simp
  then have "unat (m_phdr_num r * sizeof_Phdr :: 'a word) = table_length r"
    by (rule table_length_unat)
  then show ?thesis using assms by (simp add: unat_add_lem [THEN iffD1])
qed

lemma CheckPhdr_eq:
  assumes rep: "ends_representable r loaded"
  shows "CheckPhdr loaded (r, w) =
     (if check_in_loaded_segment r loaded then (Inr (), r\<lparr>m_loaded_phdr := loaded\<rparr>, w)
      else (Inl (Phdr_not_in_loadable_segment loaded), r, w))"
proof -
  let ?P = "\<lambda>phdr. p_type phdr = PT_LOAD \<and> p_vaddr phdr + m_load_bias r \<le> loaded
              \<and> loaded + m_phdr_num r * sizeof_Phdr \<le> p_filesz phdr + (p_vaddr phdr + m_load_bias r)"
  let ?Q = "\<lambda>phdr. p_type phdr = PT_LOAD
              \<and> unat (p_vaddr phdr + m_load_bias r) \<le> unat loaded
              \<and> unat loaded + table_length r
                   \<le> unat (p_vaddr phdr + m_load_bias r) + unat (p_filesz phdr)"
  have e: "unat (loaded + m_phdr_num r * sizeof_Phdr) = unat loaded + table_length r"
    using rep by (simp add: ends_representable_def table_end_unat)
  have "?P phdr = ?Q phdr" if "phdr \<in> set (m_phdr_table r)" for phdr
  proof (cases "p_type phdr = PT_LOAD")
    case True
    then have "unat (p_vaddr phdr + m_load_bias r) + unat (p_filesz phdr) < 2 ^ LENGTH('a)"
      using rep that by (simp add: ends_representable_def list_all_iff)
    then have "unat (p_filesz phdr + (p_vaddr phdr + m_load_bias r))
                 = unat (p_vaddr phdr + m_load_bias r) + unat (p_filesz phdr)"
      by (simp add: unat_add_lem [THEN iffD1] add.commute)
    then show ?thesis by (simp add: word_le_nat_alt e)
  next
    case False
    then show ?thesis by simp
  qed
  then have "(find ?P (m_phdr_table r) \<noteq> None) = check_in_loaded_segment r loaded"
    by (auto simp add: check_in_loaded_segment_def list_ex_iff find_None_iff)
  then show ?thesis
    by (auto simp add: CheckPhdr_def Let_def split: option.splits)
qed

text \<open>
  Claim C5. With a PT_PHDR entry, \<open>FindPhdr\<close> takes \<open>load_bias + p_vaddr\<close> of the first
  one. Without, it looks at the first LOAD entry only: if that entry's file offset is
  zero it takes the entry's address \<open>load_bias + p_vaddr\<close> plus the \<open>e_phoff\<close> read
  from the header image there; if the offset is not zero, or there is no LOAD entry, it
  fails. When the end of the table at the candidate and the file-backed ends of the LOAD
  segments are addresses (\<open>ends_representable\<close>), the candidate is accepted, and stored
  in \<open>loaded_phdr_\<close>, exactly when the table lies in the file-backed part of one LOAD
  segment (\<open>check_in_loaded_segment\<close>, a comparison of numbers); otherwise the load
  fails.
\<close>

theorem find_live_phdr:
  "(\<forall>phdr. find (\<lambda>p. p_type p = PT_PHDR) (m_phdr_table r) = Some phdr \<longrightarrow>
      (let candidate = m_load_bias r + p_vaddr phdr
       in ends_representable r candidate \<longrightarrow>
          FindPhdr E (r, w) =
            (if check_in_loaded_segment r candidate
             then (Inr (), r\<lparr>m_loaded_phdr := candidate\<rparr>, w)
             else (Inl (Phdr_not_in_loadable_segment candidate), r, w))))
   \<and> (find (\<lambda>p. p_type p = PT_PHDR) (m_phdr_table r) = None \<longrightarrow>
       (\<forall>phdr. find (\<lambda>p. p_type p = PT_LOAD) (m_phdr_table r) = Some phdr \<longrightarrow>
          (if p_offset phdr = 0
           then let candidate = m_load_bias r + p_vaddr phdr
                                  + image_e_phoff E (m_load_bias r + p_vaddr phdr)
                in ends_representable r candidate \<longrightarrow>
                   FindPhdr E (r, w) =
                     (if check_in_loaded_segment r candidate
                      then (Inr (), r\<lparr>m_loaded_phdr := candidate\<rparr>, w)
                      else (Inl (Phdr_not_in_loadable_segment candidate), r, w))
           else FindPhdr E (r, w) = (Inl Cant_find_loaded_phdr, r, w)))
       \<and> (find (\<lambda>p. p_type p = PT_LOAD) (m_phdr_table r) = None \<longrightarrow>
            FindPhdr E (r, w) = (Inl Cant_find_loaded_phdr, r, w)))"
  by (simp add: FindPhdr_def CheckPhdr_eq Let_def)

lemmas find_phdr_example_defs = example_reader_def example_env_def example_phdrs_def
  phdrs_with_PT_PHDR_def phdrs_late_zero_offset_def phdrs_table_at_top_def
  check_in_loaded_segment_def ends_representable_def table_length_def
  m_phdr_num_def sizeof_Phdr_def PT_LOAD_def PT_PHDR_def PF_R_def PF_W_def PF_X_def

text \<open>
  On the example image loaded at \<open>0x70000000\<close>: with and without a PT_PHDR entry the
  table is found at \<open>0x70000034\<close>; a header image whose \<open>e_phoff\<close> points to the last
  bytes of the segment is refused; so are a table whose first LOAD entry has a non-zero
  offset and an empty table.
\<close>

theorem find_live_phdr_witness:
  "fst (FindPhdr example_env
         (example_reader\<lparr>m_phdr_table := phdrs_with_PT_PHDR, m_load_bias := 0x6FFD0000\<rparr>,
          example_process)) = Inr ()
   \<and> m_loaded_phdr (fst (snd (FindPhdr example_env
         (example_reader\<lparr>m_phdr_table := phdrs_with_PT_PHDR, m_load_bias := 0x6FFD0000\<rparr>,
          example_process)))) = 0x70000034
   \<and> m_loaded_phdr (fst (snd (FindPhdr example_env
         (example_reader\<lparr>m_load_bias := 0x6FFD0000\<rparr>, example_process)))) = 0x70000034
   \<and> fst (FindPhdr (example_env\<lparr>image_e_phoff := (\<lambda>a. 0x3fe0)\<rparr>)
         (example_reader\<lparr>m_load_bias := 0x6FFD0000\<rparr>, example_process))
       = Inl (Phdr_not_in_loadable_segment 0x70003fe0)
   \<and> fst (FindPhdr example_env
         (example_reader\<lparr>m_phdr_table := phdrs_late_zero_offset, m_load_bias := 0x70000000\<rparr>,
          example_process)) = Inl Cant_find_loaded_phdr
   \<and> fst (FindPhdr example_env (example_reader\<lparr>m_phdr_table := []\<rparr>, example_process))
       = Inl Cant_find_loaded_phdr"
  using
    find_live_phdr [of "example_reader\<lparr>m_phdr_table := phdrs_with_PT_PHDR, m_load_bias := 0x6FFD0000\<rparr>"
      example_env example_process]
    find_live_phdr [of "example_reader\<lparr>m_load_bias := 0x6FFD0000\<rparr>" example_env example_process]
    find_live_phdr [of "example_reader\<lparr>m_load_bias := 0x6FFD0000\<rparr>"
      "example_env\<lparr>image_e_phoff := (\<lambda>a. 0x3fe0)\<rparr>" example_process]
    find_live_phdr [of "example_reader\<lparr>m_phdr_table := phdrs_late_zero_offset, m_load_bias := 0x70000000\<rparr>"
      example_env example_process]
    find_live_phdr [of "example_reader\<lparr>m_phdr_table := []\<rparr>" example_env example_process]
  by (simp add: find_phdr_example_defs)

text \<open>
  Claim C5 as worded takes "the first LOAD entry with file offset zero". In
  \<open>phdrs_late_zero_offset\<close> that is the second entry, and the address it gives passes the
  containment check, but \<open>FindPhdr\<close> stops at the first LOAD entry and fails.
\<close>

theorem find_live_phdr_counterexample:
  "find (\<lambda>p. p_type p = PT_LOAD \<and> p_offset p = 0) phdrs_late_zero_offset
     = Some (phdrs_late_zero_offset ! 1)
   \<and> check_in_loaded_segment
        (example_reader\<lparr>m_phdr_table := phdrs_late_zero_offset, m_load_bias := 0x70000000\<rparr>)
        (0x70000000 + p_vaddr (phdrs_late_zero_offset ! 1) + image_e_phoff example_env 0x70000000)
   \<and> fst (FindPhdr example_env
         (example_reader\<lparr>m_phdr_table := phdrs_late_zero_offset, m_load_bias := 0x70000000\<rparr>,
          example_process)) = Inl Cant_find_loaded_phdr"
  by (simp add: FindPhdr_def find_phdr_example_defs)

text \<open>
  Outside \<open>ends_representable\<close> the comparison of \<open>CheckPhdr\<close> is made on a sum that has
  wrapped around. With the PT_PHDR entry of \<open>phdrs_table_at_top\<close> and the image at
  \<open>0x70000000\<close> the candidate is \<open>0xFFFFFFE0\<close>, \<open>loaded_end\<close> is \<open>0x40\<close>, and the
  candidate is accepted although the 96 bytes of the table lie in no LOAD segment.
\<close>

lemma CheckPhdr_wrapped_table_end:
  "FindPhdr example_env
     (example_reader\<lparr>m_phdr_table := phdrs_table_at_top, m_load_bias := 0x6FFD0000\<rparr>,
      example_process)
     = (Inr (),
        example_reader\<lparr>m_phdr_table := phdrs_table_at_top, m_load_bias := 0x6FFD0000,
                         m_loaded_phdr := 0xFFFFFFE0\<rparr>,
        example_process)
   \<and> \<not> check_in_loaded_segment
         (example_reader\<lparr>m_phdr_table := phdrs_table_at_top, m_load_bias := 0x6FFD0000\<rparr>)
         0xFFFFFFE0
   \<and> \<not> ends_representable
         (example_reader\<lparr>m_phdr_table := phdrs_table_at_top, m_load_bias := 0x6FFD0000\<rparr>)
         0xFFFFFFE0"
  by (simp add: FindPhdr_def CheckPhdr_def find_phdr_example_defs word_le_nat_alt)

subsection \<open>Claims C3 and C4: reserving the address space\<close>

lemma reserve_fresh:
  assumes sz: "phdr_table_get_load_size (m_phdr_table r) = (load_size, min_vaddr, max_vaddr)"
    and nz: "load_size \<noteq> 0"
    and rsv: "reservation extinfo = (rs, True)"
    and small: "rs < load_size"
  shows "ReserveAddressSpace E extinfo (r, w) =
     (let isGuestLibc = (min_vaddr = 0 \<and> strstr (m_name r) ''libc.so'' \<noteq> None);
          map_addr = (if isGuestLibc then guest_libc_addr (linker_maps w) else min_vaddr);
          req = reserve_request map_addr load_size;
          w1 = w\<lparr>trace := trace w @ [req]\<rparr>
      in case kernel E (trace w) req of
           None \<Rightarrow> (Inl (Couldnt_reserve load_size), r\<lparr>m_load_size := load_size\<rparr>, w1)
         | Some start \<Rightarrow>
             (Inr (),
              r\<lparr>m_load_size := load_size, m_load_start := start,
                m_load_bias := start - min_vaddr\<rparr>,
              if isGuestLibc
              then init_seccomp E
                     (w1\<lparr>linker_maps := (linker_maps w)\<lparr>guest_libc_size := load_size\<rparr>\<rparr>)
              else w1))"
proof (cases "min_vaddr = 0 \<and> strstr (m_name r) ''libc.so'' \<noteq> None")
  case True
  then show ?thesis
    using nz small
    by (cases "kernel E (trace w)
                 (reserve_request (guest_libc_addr (linker_maps w)) load_size)")
       (simp_all add: ReserveAddressSpace_def sz rsv request_def reserve_request_def)
next
  case False
  then show ?thesis
    using nz small
    by (cases "kernel E (trace w) (reserve_request min_vaddr load_size)")
       (auto simp add: ReserveAddressSpace_def sz rsv request_def reserve_request_def)
qed

lemma reserve_explicit_small:
  assumes sz: "phdr_table_get_load_size (m_phdr_table r) = (load_size, min_vaddr, max_vaddr)"
    and nz: "load_size \<noteq> 0"
    and rsv: "reservation extinfo = (rs, False)"
    and small: "rs < load_size"
  shows "ReserveAddressSpace E extinfo (r, w) =
           (Inl (Reserved_too_small (rs - load_size) load_size), r\<lparr>m_load_size := load_size\<rparr>, w)"
  using nz small by (simp add: ReserveAddressSpace_def sz rsv)

lemma reserve_enough:
  assumes sz: "phdr_table_get_load_size (m_phdr_table r) = (load_size, min_vaddr, max_vaddr)"
    and nz: "load_size \<noteq> 0"
    and rsv: "reservation (Some e) = (rs, hint)"
    and large: "load_size \<le> rs"
  shows "ReserveAddressSpace E (Some e) (r, w) =
           (Inr (),
            r\<lparr>m_load_size := load_size, m_load_start := reserved_addr e,
              m_load_bias := reserved_addr e - min_vaddr\<rparr>,
            w)"
  using nz large by (simp add: ReserveAddressSpace_def sz rsv not_less [symmetric])


lemma init_seccomp_eq:
  "init_seccomp E w =
     w\<lparr>trace := trace w @ Prctl_set_seccomp (seccomp_filter (syscall_nr E) (linker_maps w))
                    # (if kernel E (trace w)
                            (Prctl_set_seccomp (seccomp_filter (syscall_nr E) (linker_maps w)))
                          = None
                       then [Libc_fatal_no_abort] else [])\<rparr>"
  by (simp add: init_seccomp_def request_def split: option.splits)

lemma LoadSegment_effects:
  "LoadSegment E i phdr (r, w) = (res, r', w') \<Longrightarrow>
     r' = r \<and> linker_maps w' = linker_maps w
     \<and> (\<exists>evs. trace w' = trace w @ evs \<and> (\<forall>e \<in> set evs. segment_effect e))"
  by (auto simp add: LoadSegment_def request_def Let_def MAP_FIXED_def MAP_PRIVATE_def
      MAP_ANONYMOUS_def split: if_splits option.splits)

lemma LoadSegments_from_effects:
  "LoadSegments_from E i phdrs (r, w) = (res, r', w') \<Longrightarrow>
     r' = r \<and> linker_maps w' = linker_maps w
     \<and> (\<exists>evs. trace w' = trace w @ evs \<and> (\<forall>e \<in> set evs. segment_effect e))"
proof (induction phdrs arbitrary: i w)
  case Nil
  then show ?case by simp
next
  case (Cons p ps)
  show ?case
  proof (cases "p_type p \<noteq> PT_LOAD")
    case True
    then show ?thesis using Cons.prems Cons.IH [of "Suc i" w] by simp
  next
    case False
    obtain res1 r1 w1 where one: "LoadSegment E i p (r, w) = (res1, r1, w1)"
      by (cases "LoadSegment E i p (r, w)")
    from LoadSegment_effects [OF one] obtain evs1 where
      e1: "r1 = r" "linker_maps w1 = linker_maps w" "trace w1 = trace w @ evs1"
        "\<forall>e \<in> set evs1. segment_effect e"
      by blast
    show ?thesis
    proof (cases res1)
      case (Inl err)
      then show ?thesis using Cons.prems False one e1 by auto
    next
      case (Inr u)
      then have "LoadSegments_from E (Suc i) ps (r, w1) = (res, r', w')"
        using Cons.prems False one e1 by simp
      from Cons.IH [OF this] obtain evs2 where
        "r' = r" "linker_maps w' = linker_maps w1" "trace w' = trace w1 @ evs2"
        "\<forall>e \<in> set evs2. segment_effect e"
        by blast
      then show ?thesis using e1 by (intro conjI exI [of _ "evs1 @ evs2"]) auto
    qed
  qed
qed

lemma load_and_find_effects:
  "\<exists>evs. trace (snd (snd (andalso (LoadSegments E) (FindPhdr E) (r, w)))) = trace w @ evs
          \<and> (\<forall>e \<in> set evs. segment_effect e)"
proof -
  obtain res1 r1 w1 where l: "LoadSegments_from E 0 (m_phdr_table r) (r, w) = (res1, r1, w1)"
    by (cases "LoadSegments_from E 0 (m_phdr_table r) (r, w)")
  have f: "snd (snd (FindPhdr E (r1, w1))) = w1"
    by (simp add: FindPhdr_def CheckPhdr_def Let_def split: option.splits)
  have "snd (snd (andalso (LoadSegments E) (FindPhdr E) (r, w))) = w1"
    using l f by (cases res1) (simp_all add: andalso_def LoadSegments_def)
  then show ?thesis using LoadSegments_from_effects [OF l] by simp
qed

lemma Load_after_headers:
  "andalso (ReadElfHeader E) (andalso VerifyElfHeader (ReadProgramHeader E)) s0 = (Inr (), s) \<Longrightarrow>
     Load E extinfo s0 =
       andalso (ReserveAddressSpace E extinfo) (andalso (LoadSegments E) (FindPhdr E)) s"
  unfolding Load_def andalso_def [of "ReadElfHeader E"] andalso_def [of VerifyElfHeader]
    andalso_def [of "ReadProgramHeader E"]
  by (auto split: prod.splits sum.splits)

text \<open>
  Claim C3. When the image's name contains \<open>libc.so\<close>, its lowest page address is null,
  the caller has reserved no range that holds the load extent (and has not made a small
  reservation binding), and the kernel grants the mapping: \<open>ReserveAddressSpace\<close> asks for
  the reservation at the guest libc address of the registry (as the address argument of a
  mapping that is not fixed), takes the address the kernel returns as \<open>load_start_\<close>,
  stores the load size in the registry's guest libc size (the address field keeps the
  address that was asked for), and requests the installation of the filter built from the
  registry, all before it returns. In every run of \<open>Load\<close> that reaches this state after
  reading the headers, the trace of the whole load is the trace up to these two requests
  followed by segment mappings only.
\<close>

theorem guest_libc_reservation:
  assumes name: "strstr (m_name r) ''libc.so'' \<noteq> None"
    and sz: "phdr_table_get_load_size (m_phdr_table r) = (load_size, 0, max_vaddr)"
    and nz: "load_size \<noteq> 0"
    and rsv: "reservation extinfo = (rs, True)"
    and small: "rs < load_size"
    and granted: "kernel E (trace w)
                    (reserve_request (guest_libc_addr (linker_maps w)) load_size) = Some start"
  shows "let req = reserve_request (guest_libc_addr (linker_maps w)) load_size;
             maps' = (linker_maps w)\<lparr>guest_libc_size := load_size\<rparr>;
             install = Prctl_set_seccomp (seccomp_filter (syscall_nr E) maps');
             w' = w\<lparr>linker_maps := maps',
                    trace := trace w @ [req, install]
                      @ (if kernel E (trace w @ [req]) install = None
                         then [Libc_fatal_no_abort] else [])\<rparr>
         in ReserveAddressSpace E extinfo (r, w) =
              (Inr (),
               r\<lparr>m_load_size := load_size, m_load_start := start, m_load_bias := start\<rparr>, w')
            \<and> (\<forall>s0. andalso (ReadElfHeader E) (andalso VerifyElfHeader (ReadProgramHeader E)) s0
                       = (Inr (), r, w) \<longrightarrow>
                  (\<exists>evs. trace (snd (snd (Load E extinfo s0))) = trace w' @ evs
                         \<and> (\<forall>e \<in> set evs. segment_effect e)))"
proof -
  let ?req = "reserve_request (guest_libc_addr (linker_maps w)) load_size"
  let ?w' = "init_seccomp E (w\<lparr>trace := trace w @ [?req],
                                linker_maps := (linker_maps w)\<lparr>guest_libc_size := load_size\<rparr>\<rparr>)"
  let ?r' = "r\<lparr>m_load_size := load_size, m_load_start := start, m_load_bias := start\<rparr>"
  have res: "ReserveAddressSpace E extinfo (r, w) = (Inr (), ?r', ?w')"
    using reserve_fresh [OF sz nz rsv small, of E w] name granted by simp
  have chain: "Load E extinfo s0 = andalso (LoadSegments E) (FindPhdr E) (?r', ?w')"
    if "andalso (ReadElfHeader E) (andalso VerifyElfHeader (ReadProgramHeader E)) s0
          = (Inr (), r, w)" for s0
    by (simp add: Load_after_headers [OF that] andalso_def [of "ReserveAddressSpace E extinfo"] res)
  show ?thesis
    using load_and_find_effects [of E ?r' ?w']
    by (simp add: res chain init_seccomp_eq Let_def)
qed

lemmas reserve_example_defs = libc_reader_def libc_phdrs_def example_reader_def
  example_process_def example_env_def example_kernel_def elsewhere_kernel_def
  refusing_kernel_def maps_example32_def hint_small_def hint_large_def explicit_small_def
  explicit_large_def reservation_def reserve_request_def phdr_table_get_load_size_def
  ANDROID_DLEXT_RESERVED_ADDRESS_def ANDROID_DLEXT_RESERVED_ADDRESS_HINT_def
  PT_LOAD_def PF_R_def PF_W_def PF_X_def PAGE_END_def PAGE_START_def PAGE_MASK_def
  PAGE_SIZE_def

lemmas load_example_defs = Load_def andalso_def ReadElfHeader_def VerifyElfHeader_def
  ReadProgramHeader_def ReserveAddressSpace_def LoadSegments_def LoadSegment_def FindPhdr_def
  CheckPhdr_def init_seccomp_eq request_def libc_env_def example_ehdr_def sizeof_Ehdr_def
  sizeof_Phdr_def m_phdr_num_def ELFMAG_def EI_CLASS_def EI_DATA_def ELFCLASS32_def
  ELFDATA2LSB_def ET_DYN_def EV_CURRENT_def EM_ARM_def PFLAGS_TO_PROT_def MAYBE_MAP_FLAG_def
  PAGE_OFFSET_def PROT_NONE_def PROT_READ_def PROT_WRITE_def PROT_EXEC_def MAP_PRIVATE_def
  MAP_FIXED_def MAP_ANONYMOUS_def

text \<open>
  The guest libc image, with no \<open>extinfo\<close>, on the kernel that grants the wanted
  address: placed at \<open>0xbcc60000\<close>, size \<open>0x8000\<close> recorded, filter requested, and in the
  trace of the whole \<open>Load\<close> the two segments (and the zero-filled tail of the second)
  are mapped after the filter request.
\<close>

theorem guest_libc_reservation_witness:
  "ReserveAddressSpace libc_env None libc_headers_read =
     (Inr (),
      fst libc_headers_read\<lparr>m_load_size := 0x8000, m_load_start := 0xbcc60000,
                             m_load_bias := 0xbcc60000\<rparr>,
      \<lparr>linker_maps = maps_example32\<lparr>guest_libc_size := 0x8000\<rparr>,
       trace = [Pread64 3 52 0,
                Mmap 0 0x1000 PROT_READ MAP_PRIVATE 3 0,
                reserve_request 0xbcc60000 0x8000,
                Prctl_set_seccomp
                  (seccomp_filter arm_NR (maps_example32\<lparr>guest_libc_size := 0x8000\<rparr>))]\<rparr>)
   \<and> trace (snd (snd (Load libc_env None libc_opened))) =
       [Pread64 3 52 0,
        Mmap 0 0x1000 PROT_READ MAP_PRIVATE 3 0,
        reserve_request 0xbcc60000 0x8000,
        Prctl_set_seccomp (seccomp_filter arm_NR (maps_example32\<lparr>guest_libc_size := 0x8000\<rparr>)),
        Mmap 0xbcc60000 0x5000 5 0x12 3 0,
        Mmap 0xbcc66000 0x1000 3 0x12 3 0x5000,
        Mmap 0xbcc67000 0x1000 3 0x32 (- 1) 0]"
proof -
  have hdr: "andalso (ReadElfHeader libc_env)
               (andalso VerifyElfHeader (ReadProgramHeader libc_env)) libc_opened
             = (Inr (), libc_headers_read)"
    by (simp add: libc_opened_def libc_headers_read_def load_example_defs reserve_example_defs
        word_le_nat_alt word_less_nat_alt upt_conv_Cons)
  note t = guest_libc_reservation [where E = libc_env and extinfo = None
      and r = "fst libc_headers_read" and w = "snd libc_headers_read"
      and load_size = "0x8000" and max_vaddr = "0x8000" and rs = 0 and start = "0xbcc60000"]
  have r: "ReserveAddressSpace libc_env None libc_headers_read =
     (Inr (),
      fst libc_headers_read\<lparr>m_load_size := 0x8000, m_load_start := 0xbcc60000,
                             m_load_bias := 0xbcc60000\<rparr>,
      \<lparr>linker_maps = maps_example32\<lparr>guest_libc_size := 0x8000\<rparr>,
       trace = [Pread64 3 52 0,
                Mmap 0 0x1000 PROT_READ MAP_PRIVATE 3 0,
                reserve_request 0xbcc60000 0x8000,
                Prctl_set_seccomp
                  (seccomp_filter arm_NR (maps_example32\<lparr>guest_libc_size := 0x8000\<rparr>))]\<rparr>)"
    using t
    by (simp add: libc_headers_read_def libc_env_def reserve_example_defs word_gt_0 Let_def)
  have l: "Load libc_env None libc_opened =
             andalso (LoadSegments libc_env) (FindPhdr libc_env)
               (snd (ReserveAddressSpace libc_env None libc_headers_read))"
    unfolding Load_after_headers [OF hdr]
    by (simp add: andalso_def [of "ReserveAddressSpace libc_env None"] r)
  show ?thesis
    unfolding l unfolding r
    by (simp add: libc_headers_read_def andalso_def LoadSegments_def LoadSegment_def
        FindPhdr_def CheckPhdr_def request_def libc_env_def PFLAGS_TO_PROT_def
        MAYBE_MAP_FLAG_def PAGE_OFFSET_def PROT_NONE_def PROT_READ_def PROT_WRITE_def
        PROT_EXEC_def MAP_PRIVATE_def MAP_FIXED_def MAP_ANONYMOUS_def PT_PHDR_def
        reserve_example_defs word_le_nat_alt word_less_nat_alt)
qed


text \<open>
  Claim C3 as worded covers every load of an image with that name and a null lowest
  address. With a hinted range that is large enough the image goes to the caller's range,
  the registry is not written and no filter is requested. And the fixed address is only
  asked for: on a kernel that places the mapping elsewhere the image is at
  \<open>0x50000000\<close> while the registry still says \<open>0xbcc60000\<close>.
\<close>

theorem guest_libc_reservation_counterexample:
  "strstr (m_name libc_reader) ''libc.so'' \<noteq> None
   \<and> fst (snd (phdr_table_get_load_size (m_phdr_table libc_reader))) = 0
   \<and> ReserveAddressSpace example_env (Some hint_large) (libc_reader, example_process) =
       (Inr (),
        libc_reader\<lparr>m_load_size := 0x8000, m_load_start := 0x50000000, m_load_bias := 0x50000000\<rparr>,
        example_process)
   \<and> m_load_start (fst (snd (ReserveAddressSpace (example_env\<lparr>kernel := elsewhere_kernel\<rparr>) None
                                (libc_reader, example_process)))) = 0x50000000
   \<and> guest_libc_addr (linker_maps (snd (snd (ReserveAddressSpace
          (example_env\<lparr>kernel := elsewhere_kernel\<rparr>) None (libc_reader, example_process)))))
       = 0xbcc60000"
  by (simp add: ReserveAddressSpace_def init_seccomp_eq request_def reserve_example_defs
      word_gt_0)

text \<open>
  Claim C4. For a table with a non-zero load extent and a caller's \<open>extinfo\<close>: with a
  hint smaller than the extent, \<open>ReserveAddressSpace\<close> asks the kernel for a fresh
  anonymous reservation of the whole extent, not fixed, and succeeds exactly when the
  kernel grants it, the start being the address the kernel returns; with an explicit
  reservation smaller than the extent it fails with the "reserved address space ...
  smaller" error naming the needed size, and asks the kernel for nothing; with an
  explicit reservation that is large enough the start is the caller's reserved address.
\<close>

theorem reserve_against_caller_range:
  assumes sz: "phdr_table_get_load_size (m_phdr_table r) = (load_size, min_vaddr, max_vaddr)"
    and nz: "load_size \<noteq> 0"
  shows
    "(flags e AND ANDROID_DLEXT_RESERVED_ADDRESS = 0
        \<and> flags e AND ANDROID_DLEXT_RESERVED_ADDRESS_HINT \<noteq> 0
        \<and> reserved_size e < load_size \<longrightarrow>
        (let map_addr = (if min_vaddr = 0 \<and> strstr (m_name r) ''libc.so'' \<noteq> None
                         then guest_libc_addr (linker_maps w) else min_vaddr);
             req = reserve_request map_addr load_size;
             result = ReserveAddressSpace E (Some e) (r, w)
         in (\<exists>rest. trace (snd (snd result)) = trace w @ req # rest)
            \<and> (case kernel E (trace w) req of
                  None \<Rightarrow> fst result = Inl (Couldnt_reserve load_size)
                | Some start \<Rightarrow>
                    fst result = Inr () \<and> m_load_start (fst (snd result)) = start
                    \<and> m_load_bias (fst (snd result)) = start - min_vaddr)))
     \<and> (flags e AND ANDROID_DLEXT_RESERVED_ADDRESS \<noteq> 0 \<and> reserved_size e < load_size \<longrightarrow>
          (\<exists>x. ReserveAddressSpace E (Some e) (r, w) =
                  (Inl (Reserved_too_small x load_size), r\<lparr>m_load_size := load_size\<rparr>, w)))
     \<and> (flags e AND ANDROID_DLEXT_RESERVED_ADDRESS \<noteq> 0 \<and> load_size \<le> reserved_size e \<longrightarrow>
          ReserveAddressSpace E (Some e) (r, w) =
            (Inr (),
             r\<lparr>m_load_size := load_size, m_load_start := reserved_addr e,
               m_load_bias := reserved_addr e - min_vaddr\<rparr>,
             w))"
proof (intro conjI impI)
  assume a: "flags e AND ANDROID_DLEXT_RESERVED_ADDRESS = 0
        \<and> flags e AND ANDROID_DLEXT_RESERVED_ADDRESS_HINT \<noteq> 0
        \<and> reserved_size e < load_size"
  then have rsv: "reservation (Some e) = (reserved_size e, True)"
    by (simp add: reservation_def)
  show "let map_addr = (if min_vaddr = 0 \<and> strstr (m_name r) ''libc.so'' \<noteq> None
                         then guest_libc_addr (linker_maps w) else min_vaddr);
             req = reserve_request map_addr load_size;
             result = ReserveAddressSpace E (Some e) (r, w)
         in (\<exists>rest. trace (snd (snd result)) = trace w @ req # rest)
            \<and> (case kernel E (trace w) req of
                  None \<Rightarrow> fst result = Inl (Couldnt_reserve load_size)
                | Some start \<Rightarrow>
                    fst result = Inr () \<and> m_load_start (fst (snd result)) = start
                    \<and> m_load_bias (fst (snd result)) = start - min_vaddr)"
    using a by (simp add: reserve_fresh [OF sz nz rsv] Let_def init_seccomp_eq
        split: option.splits)
next
  assume a: "flags e AND ANDROID_DLEXT_RESERVED_ADDRESS \<noteq> 0 \<and> reserved_size e < load_size"
  then have rsv: "reservation (Some e) = (reserved_size e, False)"
    by (simp add: reservation_def)
  show "\<exists>x. ReserveAddressSpace E (Some e) (r, w) =
              (Inl (Reserved_too_small x load_size), r\<lparr>m_load_size := load_size\<rparr>, w)"
    using a by (simp add: reserve_explicit_small [OF sz nz rsv])
next
  assume a: "flags e AND ANDROID_DLEXT_RESERVED_ADDRESS \<noteq> 0 \<and> load_size \<le> reserved_size e"
  then have rsv: "reservation (Some e) = (reserved_size e, False)"
    by (simp add: reservation_def)
  show "ReserveAddressSpace E (Some e) (r, w) =
            (Inr (),
             r\<lparr>m_load_size := load_size, m_load_start := reserved_addr e,
               m_load_bias := reserved_addr e - min_vaddr\<rparr>,
             w)"
    using a by (simp add: reserve_enough [OF sz nz rsv])
qed

text \<open>
  The example image needs \<open>0x18000\<close> bytes. A hint of \<open>0x4000\<close> is passed over for a
  fresh mapping; an explicit reservation of \<open>0x4000\<close> is refused; one of \<open>0x100000\<close>
  at \<open>0x50000000\<close> is used.
\<close>

theorem reserve_against_caller_range_witness:
  "ReserveAddressSpace example_env (Some hint_small) (example_reader, example_process) =
     (Inr (),
      example_reader\<lparr>m_load_size := 0x18000, m_load_start := 0x30000, m_load_bias := 0\<rparr>,
      example_process\<lparr>trace := [reserve_request 0x30000 0x18000]\<rparr>)
   \<and> fst (ReserveAddressSpace (example_env\<lparr>kernel := elsewhere_kernel\<rparr>) (Some hint_small)
            (example_reader, example_process)) = Inr ()
   \<and> m_load_bias (fst (snd (ReserveAddressSpace (example_env\<lparr>kernel := elsewhere_kernel\<rparr>)
            (Some hint_small) (example_reader, example_process)))) = 0x4ffd0000
   \<and> is_Reserved_too_small (projl (fst (ReserveAddressSpace example_env (Some explicit_small)
            (example_reader, example_process))))
   \<and> ReserveAddressSpace example_env (Some explicit_large) (example_reader, example_process) =
       (Inr (),
        example_reader\<lparr>m_load_size := 0x18000, m_load_start := 0x50000000,
          m_load_bias := 0x4ffd0000\<rparr>,
        example_process)"
  using
    reserve_against_caller_range [where r = example_reader and e = hint_small
      and E = example_env and w = example_process and load_size = "0x18000"
      and min_vaddr = "0x30000" and max_vaddr = "0x48000"]
    reserve_against_caller_range [where r = example_reader and e = hint_small
      and E = "example_env\<lparr>kernel := elsewhere_kernel\<rparr>" and w = example_process
      and load_size = "0x18000" and min_vaddr = "0x30000" and max_vaddr = "0x48000"]
    reserve_against_caller_range [where r = example_reader and e = explicit_small
      and E = example_env and w = example_process and load_size = "0x18000"
      and min_vaddr = "0x30000" and max_vaddr = "0x48000"]
    reserve_against_caller_range [where r = example_reader and e = explicit_large
      and E = example_env and w = example_process and load_size = "0x18000"
      and min_vaddr = "0x30000" and max_vaddr = "0x48000"]
  by (simp add: ReserveAddressSpace_def request_def reserve_example_defs example_phdrs_def
      word_gt_0 Let_def)

text \<open>
  Claim C4 as worded has the fallback succeed and the error report the shortfall. When the
  kernel refuses the fresh mapping the call fails; and the number in the error is
  \<open>reserved_size - load_size_\<close>, here \<open>0xFFFEC000\<close>, while the shortfall is
  \<open>0x14000\<close>.
\<close>

theorem reserve_against_caller_range_counterexample:
  "fst (ReserveAddressSpace (example_env\<lparr>kernel := refusing_kernel\<rparr>) (Some hint_small)
          (example_reader, example_process)) = Inl (Couldnt_reserve 0x18000)
   \<and> fst (ReserveAddressSpace example_env (Some explicit_small)
            (example_reader, example_process)) = Inl (Reserved_too_small 0xFFFEC000 0x18000)
   \<and> (0x18000 :: 32 word) - reserved_size explicit_small = 0x14000"
  by (simp add: ReserveAddressSpace_def request_def reserve_example_defs example_phdrs_def
      word_gt_0)

subsection \<open>Claim C7: the dynamic section\<close>

lemma ReadDynamicSection_eq:
  "ReadDynamicSection E (r, w) =
     (case find (\<lambda>s. sh_type s = SHT_DYNAMIC) (m_shdr_table r) of
        None \<Rightarrow> (Inl No_dynamic_section, r, w)
      | Some dynamic_shdr \<Rightarrow>
          (let strtab_shdr = m_shdr_table r ! unat (sh_link dynamic_shdr);
               map_dynamic = Map_fragment (m_fd r) (m_file_offset r)
                               (sh_offset dynamic_shdr) (sh_size dynamic_shdr);
               map_strtab = Map_fragment (m_fd r) (m_file_offset r)
                              (sh_offset strtab_shdr) (sh_size strtab_shdr)
           in if m_shdr_num r \<le> ucast (sh_link dynamic_shdr)
              then (Inl (Invalid_sh_link (sh_link dynamic_shdr)), r, w)
              else if sh_type strtab_shdr \<noteq> SHT_STRTAB
              then (Inl (Invalid_link_sh_type (sh_type strtab_shdr)), r, w)
              else case kernel E (trace w) map_dynamic of
                     None \<Rightarrow> (Inl Dynamic_mmap_failed, r, w\<lparr>trace := trace w @ [map_dynamic]\<rparr>)
                   | Some dynamic_data \<Rightarrow>
                       (case kernel E (trace w @ [map_dynamic]) map_strtab of
                          None \<Rightarrow>
                            (Inl Strtab_mmap_failed, r\<lparr>m_dynamic := dynamic_data\<rparr>,
                             w\<lparr>trace := trace w @ [map_dynamic, map_strtab]\<rparr>)
                        | Some strtab_data \<Rightarrow>
                            (Inr (),
                             r\<lparr>m_dynamic := dynamic_data, m_strtab := strtab_data,
                               m_strtab_size := sh_size strtab_shdr\<rparr>,
                             w\<lparr>trace := trace w @ [map_dynamic, map_strtab]\<rparr>))))"
proof (cases "find (\<lambda>s. sh_type s = SHT_DYNAMIC) (m_shdr_table r)")
  case None
  then show ?thesis by (simp add: ReadDynamicSection_def)
next
  case (Some dyn)
  let ?str = "m_shdr_table r ! unat (sh_link dyn)"
  let ?m1 = "Map_fragment (m_fd r) (m_file_offset r) (sh_offset dyn) (sh_size dyn)"
  let ?m2 = "Map_fragment (m_fd r) (m_file_offset r) (sh_offset ?str) (sh_size ?str)"
  show ?thesis
  proof (cases "kernel E (trace w) ?m1")
    case None
    then show ?thesis using Some by (simp add: ReadDynamicSection_def request_def Let_def)
  next
    case d: (Some dynamic_data)
    show ?thesis
    proof (cases "kernel E (trace w @ [?m1]) ?m2")
      case None
      then show ?thesis using Some d by (simp add: ReadDynamicSection_def request_def Let_def)
    next
      case s: (Some strtab_data)
      then show ?thesis using Some d by (simp add: ReadDynamicSection_def request_def Let_def)
    qed
  qed
qed

lemma ReadDynamicSection_file_size:
  "ReadDynamicSection E (r\<lparr>m_file_size := s\<rparr>, w) =
     (case ReadDynamicSection E (r, w) of (res, r', w') \<Rightarrow> (res, r'\<lparr>m_file_size := s\<rparr>, w'))"
proof (cases "find (\<lambda>s. sh_type s = SHT_DYNAMIC) (m_shdr_table r)")
  case None
  then show ?thesis by (simp add: ReadDynamicSection_eq)
next
  case (Some dyn)
  let ?str = "m_shdr_table r ! unat (sh_link dyn)"
  let ?m1 = "Map_fragment (m_fd r) (m_file_offset r) (sh_offset dyn) (sh_size dyn)"
  let ?m2 = "Map_fragment (m_fd r) (m_file_offset r) (sh_offset ?str) (sh_size ?str)"
  show ?thesis
  proof (cases "kernel E (trace w) ?m1")
    case None
    then show ?thesis using Some by (simp add: ReadDynamicSection_eq m_shdr_num_def Let_def)
  next
    case d: (Some dynamic_data)
    show ?thesis
    proof (cases "kernel E (trace w @ [?m1]) ?m2")
      case None
      then show ?thesis using Some d by (simp add: ReadDynamicSection_eq m_shdr_num_def Let_def)
    next
      case s: (Some strtab_data)
      then show ?thesis using Some d by (simp add: ReadDynamicSection_eq m_shdr_num_def Let_def)
    qed
  qed
qed

text \<open>
  Claim C7. \<open>ReadDynamicSection\<close> takes the first section of type DYNAMIC and fails if
  there is none, if its \<open>sh_link\<close> is not below the number of sections, or if the linked
  section is not of type STRTAB. Otherwise it maps the dynamic section and then its string
  table, each at its own offset and size, and fails if either mapping fails. The size of
  the file plays no part: with any other \<open>file_size_\<close> the result and the requests are
  the same, so no fragment is checked against the file's size before it is mapped.
\<close>

theorem locate_dynamic_section:
  "(find (\<lambda>s. sh_type s = SHT_DYNAMIC) (m_shdr_table r) = None \<longrightarrow>
      ReadDynamicSection E (r, w) = (Inl No_dynamic_section, r, w))
   \<and> (\<forall>dynamic_shdr. find (\<lambda>s. sh_type s = SHT_DYNAMIC) (m_shdr_table r) = Some dynamic_shdr \<longrightarrow>
        ReadDynamicSection E (r, w) =
         (let strtab_shdr = m_shdr_table r ! unat (sh_link dynamic_shdr);
              map_dynamic = Map_fragment (m_fd r) (m_file_offset r)
                              (sh_offset dynamic_shdr) (sh_size dynamic_shdr);
              map_strtab = Map_fragment (m_fd r) (m_file_offset r)
                             (sh_offset strtab_shdr) (sh_size strtab_shdr)
          in if m_shdr_num r \<le> ucast (sh_link dynamic_shdr)
             then (Inl (Invalid_sh_link (sh_link dynamic_shdr)), r, w)
             else if sh_type strtab_shdr \<noteq> SHT_STRTAB
             then (Inl (Invalid_link_sh_type (sh_type strtab_shdr)), r, w)
             else case kernel E (trace w) map_dynamic of
                    None \<Rightarrow> (Inl Dynamic_mmap_failed, r, w\<lparr>trace := trace w @ [map_dynamic]\<rparr>)
                  | Some dynamic_data \<Rightarrow>
                      (case kernel E (trace w @ [map_dynamic]) map_strtab of
                         None \<Rightarrow>
                           (Inl Strtab_mmap_failed, r\<lparr>m_dynamic := dynamic_data\<rparr>,
                            w\<lparr>trace := trace w @ [map_dynamic, map_strtab]\<rparr>)
                       | Some strtab_data \<Rightarrow>
                           (Inr (),
                            r\<lparr>m_dynamic := dynamic_data, m_strtab := strtab_data,
                              m_strtab_size := sh_size strtab_shdr\<rparr>,
                            w\<lparr>trace := trace w @ [map_dynamic, map_strtab]\<rparr>))))
   \<and> (\<forall>s. ReadDynamicSection E (r\<lparr>m_file_size := s\<rparr>, w) =
          (case ReadDynamicSection E (r, w) of
             (res, r', w') \<Rightarrow> (res, r'\<lparr>m_file_size := s\<rparr>, w')))"
  by (simp add: ReadDynamicSection_file_size) (simp add: ReadDynamicSection_eq)

lemmas dynamic_example_defs = shdrs_beyond_file_def shdrs_in_file_def example_reader_def
  example_process_def example_env_def example_kernel_def refusing_kernel_def
  m_shdr_num_def SHT_DYNAMIC_def SHT_STRTAB_def

text \<open>
  On \<open>shdrs_in_file\<close> both fragments are mapped; a refused mapping, a table without a
  dynamic section, a link past the table and a link to a section of another type fail.
\<close>

theorem locate_dynamic_section_witness:
  "ReadDynamicSection example_env (example_reader\<lparr>m_shdr_table := shdrs_in_file\<rparr>, example_process)
     = (Inr (),
        example_reader\<lparr>m_shdr_table := shdrs_in_file, m_dynamic := 0x60005800,
          m_strtab := 0x60005000, m_strtab_size := 0x40\<rparr>,
        example_process\<lparr>trace := [Map_fragment 3 0 0x5800 0x80, Map_fragment 3 0 0x5000 0x40]\<rparr>)
   \<and> fst (ReadDynamicSection (example_env\<lparr>kernel := refusing_kernel\<rparr>)
            (example_reader\<lparr>m_shdr_table := shdrs_in_file\<rparr>, example_process))
       = Inl Dynamic_mmap_failed
   \<and> fst (ReadDynamicSection example_env (example_reader\<lparr>m_shdr_table := take 1 shdrs_in_file\<rparr>,
            example_process)) = Inl No_dynamic_section
   \<and> fst (ReadDynamicSection example_env (example_reader\<lparr>m_shdr_table := drop 2 shdrs_in_file\<rparr>,
            example_process)) = Inl (Invalid_sh_link 1)
   \<and> fst (ReadDynamicSection example_env (example_reader\<lparr>m_shdr_table := drop 1 shdrs_in_file\<rparr>,
            example_process)) = Inl (Invalid_link_sh_type SHT_DYNAMIC)"
proof -
  note c = locate_dynamic_section [THEN conjunct2, THEN conjunct1, rule_format]
  note n = locate_dynamic_section [THEN conjunct1, rule_format]
  have f1: "find (\<lambda>s. sh_type s = SHT_DYNAMIC)
              (m_shdr_table (example_reader\<lparr>m_shdr_table := shdrs_in_file\<rparr>))
            = Some (shdrs_in_file ! 2)"
    and f2: "find (\<lambda>s. sh_type s = SHT_DYNAMIC)
              (m_shdr_table (example_reader\<lparr>m_shdr_table := take 1 shdrs_in_file\<rparr>)) = None"
    and f3: "find (\<lambda>s. sh_type s = SHT_DYNAMIC)
              (m_shdr_table (example_reader\<lparr>m_shdr_table := drop 2 shdrs_in_file\<rparr>))
            = Some (shdrs_in_file ! 2)"
    and f4: "find (\<lambda>s. sh_type s = SHT_DYNAMIC)
              (m_shdr_table (example_reader\<lparr>m_shdr_table := drop 1 shdrs_in_file\<rparr>))
            = Some (shdrs_in_file ! 2)"
    by (simp_all add: shdrs_in_file_def SHT_DYNAMIC_def SHT_STRTAB_def)
  show ?thesis
    unfolding c [OF f1] c [OF f3] c [OF f4] n [OF f2]
    by (simp add: dynamic_example_defs Let_def word_le_nat_alt)
qed


text \<open>
  Claim C7 as worded has each fragment checked against the file size before it is mapped.
  In a file of \<open>0x7000\<close> bytes \<open>CheckFileRange\<close> rejects the dynamic section at
  \<open>0x10000\<close> and the string table at \<open>0x20000\<close>, yet \<open>ReadDynamicSection\<close> asks for
  both mappings and succeeds.
\<close>

theorem locate_dynamic_section_counterexample:
  "m_file_size example_reader = 0x7000
   \<and> CheckFileRange example_reader (sh_offset (shdrs_beyond_file ! 1))
        (sh_size (shdrs_beyond_file ! 1)) 4 = Return False
   \<and> CheckFileRange example_reader (sh_offset (shdrs_beyond_file ! 2))
        (sh_size (shdrs_beyond_file ! 2)) 1 = Return False
   \<and> ReadDynamicSection example_env
        (example_reader\<lparr>m_shdr_table := shdrs_beyond_file\<rparr>, example_process)
       = (Inr (),
          example_reader\<lparr>m_shdr_table := shdrs_beyond_file, m_dynamic := 0x60010000,
            m_strtab := 0x60020000, m_strtab_size := 0x40\<rparr>,
          example_process\<lparr>trace := [Map_fragment 3 0 0x10000 0x80, Map_fragment 3 0 0x20000 0x40]\<rparr>)"
  by (simp add: ReadDynamicSection_def request_def CheckFileRange_def safe_add_def CHECK_def
      INT64_MAX_def dynamic_example_defs word_le_nat_alt)

subsection \<open>Claim C9: protection of the segments\<close>

lemma granted_Cons:
  "granted E w (req # reqs) (Suc i) = granted E (w\<lparr>trace := trace w @ [req]\<rparr>) reqs i"
  by (simp add: granted_def)

lemma set_load_prot_trace:
  "phdr_table_set_load_prot E phdr_table load_bias extra w = (ret, w') \<Longrightarrow>
     \<exists>n \<le> length (nonwritable_loads phdr_table).
       w' = w\<lparr>trace := trace w
               @ take n (map (page_range_request load_bias extra) (nonwritable_loads phdr_table))\<rparr>
       \<and> (ret = 0 \<and> n = length (nonwritable_loads phdr_table)
             \<and> (\<forall>i < n. granted E w (map (page_range_request load_bias extra)
                                       (nonwritable_loads phdr_table)) i)
           \<or> ret = - 1 \<and> 0 < n
             \<and> (\<forall>i < n - 1. granted E w (map (page_range_request load_bias extra)
                                           (nonwritable_loads phdr_table)) i)
             \<and> \<not> granted E w (map (page_range_request load_bias extra)
                                (nonwritable_loads phdr_table)) (n - 1))"
proof (induction phdr_table arbitrary: w)
  case Nil
  then show ?case by (simp add: nonwritable_loads_def)
next
  case (Cons p ps)
  let ?reqs = "\<lambda>ps. map (page_range_request load_bias extra) (nonwritable_loads ps)"
  show ?case
  proof (cases "p_type p \<noteq> PT_LOAD \<or> p_flags p AND PF_W \<noteq> 0")
    case True
    then have "nonwritable_loads (p # ps) = nonwritable_loads ps"
      by (auto simp: nonwritable_loads_def)
    moreover have "phdr_table_set_load_prot E ps load_bias extra w = (ret, w')"
      using Cons.prems True by simp
    ultimately show ?thesis using Cons.IH [of w] by simp
  next
    case False
    then have nl: "nonwritable_loads (p # ps) = p # nonwritable_loads ps"
      by (auto simp: nonwritable_loads_def)
    let ?req = "page_range_request load_bias extra p"
    let ?w1 = "w\<lparr>trace := trace w @ [?req]\<rparr>"
    show ?thesis
    proof (cases "kernel E (trace w) ?req")
      case None
      then have "ret = - 1" "w' = ?w1"
        using Cons.prems False
        by (auto simp: request_def page_range_request_def Let_def)
      then show ?thesis
        using None by (intro exI [of _ 1]) (simp add: nl granted_def)
    next
      case (Some v)
      then have g0: "granted E w (?req # ?reqs ps) 0"
        by (simp add: granted_def)
      have "phdr_table_set_load_prot E ps load_bias extra ?w1 = (ret, w')"
        using Some Cons.prems False
        by (auto simp: request_def page_range_request_def Let_def)
      from Cons.IH [OF this] obtain n where n: "n \<le> length (nonwritable_loads ps)"
        "w' = ?w1\<lparr>trace := trace ?w1 @ take n (?reqs ps)\<rparr>"
        "ret = 0 \<and> n = length (nonwritable_loads ps) \<and> (\<forall>i < n. granted E ?w1 (?reqs ps) i)
           \<or> ret = - 1 \<and> 0 < n \<and> (\<forall>i < n - 1. granted E ?w1 (?reqs ps) i)
              \<and> \<not> granted E ?w1 (?reqs ps) (n - 1)"
        by blast
      have all: "\<forall>i < Suc m. granted E w (?req # ?reqs ps) i"
        if "\<forall>i < m. granted E ?w1 (?reqs ps) i" for m
      proof (intro allI impI)
        fix i assume "i < Suc m"
        then show "granted E w (?req # ?reqs ps) i"
          using that g0 by (cases i) (simp_all add: granted_Cons)
      qed
      from n(3) show ?thesis
      proof
        assume a: "ret = 0 \<and> n = length (nonwritable_loads ps)
                     \<and> (\<forall>i < n. granted E ?w1 (?reqs ps) i)"
        then show ?thesis
          using n(1,2) all [of n] by (intro exI [of _ "Suc n"]) (simp add: nl)
      next
        assume a: "ret = - 1 \<and> 0 < n \<and> (\<forall>i < n - 1. granted E ?w1 (?reqs ps) i)
                     \<and> \<not> granted E ?w1 (?reqs ps) (n - 1)"
        then obtain k where k: "n = Suc k" by (cases n) auto
        show ?thesis
          using a n(1,2) all [of "n - 1"] k
          by (intro exI [of _ "Suc n"]) (simp add: nl granted_Cons)
      qed
    qed
  qed
qed


text \<open>
  Claim C9. \<open>unprotect_segments\<close> and \<open>protect_segments\<close> make their \<open>mprotect\<close>
  requests for the LOAD entries that are not writable, in table order. They go on while
  the kernel grants the requests and stop at the first one it refuses: they return 0
  when every request has been made and granted, and -1 right after the first refused
  request, the later ones not made. Each request covers the pages of its entry, with the
  entry's own flags and write access for \<open>unprotect_segments\<close>, with the entry's own
  flags and nothing more for \<open>protect_segments\<close>. No request is made for a writable
  LOAD entry or for an entry of another type: their pages change protection only where
  such a request covers them.
\<close>

theorem set_load_protection:
  "(let reqs = map (page_range_request load_bias PROT_WRITE) (nonwritable_loads phdr_table)
    in case phdr_table_unprotect_segments E phdr_table load_bias w of
         (ret, w') \<Rightarrow>
           \<exists>n \<le> length reqs.
             w' = w\<lparr>trace := trace w @ take n reqs\<rparr>
             \<and> (ret = 0 \<and> n = length reqs \<and> (\<forall>i < n. granted E w reqs i)
                 \<or> ret = - 1 \<and> 0 < n \<and> (\<forall>i < n - 1. granted E w reqs i)
                    \<and> \<not> granted E w reqs (n - 1)))
   \<and> (let reqs = map (page_range_request load_bias 0) (nonwritable_loads phdr_table)
      in case phdr_table_protect_segments E phdr_table load_bias w of
           (ret, w') \<Rightarrow>
             \<exists>n \<le> length reqs.
               w' = w\<lparr>trace := trace w @ take n reqs\<rparr>
               \<and> (ret = 0 \<and> n = length reqs \<and> (\<forall>i < n. granted E w reqs i)
                   \<or> ret = - 1 \<and> 0 < n \<and> (\<forall>i < n - 1. granted E w reqs i)
                      \<and> \<not> granted E w reqs (n - 1)))
   \<and> (\<forall>p. \<exists>start len.
         page_range_request load_bias PROT_WRITE p
           = Mprotect start len (PFLAGS_TO_PROT (p_flags p) OR PROT_WRITE)
         \<and> page_range_request load_bias 0 p = Mprotect start len (PFLAGS_TO_PROT (p_flags p)))"
proof -
  obtain ret1 w1 where u: "phdr_table_unprotect_segments E phdr_table load_bias w = (ret1, w1)"
    by (cases "phdr_table_unprotect_segments E phdr_table load_bias w")
  obtain ret2 w2 where p: "phdr_table_protect_segments E phdr_table load_bias w = (ret2, w2)"
    by (cases "phdr_table_protect_segments E phdr_table load_bias w")
  have 1: "\<exists>n \<le> length (nonwritable_loads phdr_table).
       w1 = w\<lparr>trace := trace w
               @ take n (map (page_range_request load_bias PROT_WRITE) (nonwritable_loads phdr_table))\<rparr>
       \<and> (ret1 = 0 \<and> n = length (nonwritable_loads phdr_table)
             \<and> (\<forall>i < n. granted E w (map (page_range_request load_bias PROT_WRITE)
                                       (nonwritable_loads phdr_table)) i)
           \<or> ret1 = - 1 \<and> 0 < n
             \<and> (\<forall>i < n - 1. granted E w (map (page_range_request load_bias PROT_WRITE)
                                           (nonwritable_loads phdr_table)) i)
             \<and> \<not> granted E w (map (page_range_request load_bias PROT_WRITE)
                                (nonwritable_loads phdr_table)) (n - 1))"
    by (rule set_load_prot_trace [OF u [unfolded phdr_table_unprotect_segments_def]])
  have 2: "\<exists>n \<le> length (nonwritable_loads phdr_table).
       w2 = w\<lparr>trace := trace w
               @ take n (map (page_range_request load_bias 0) (nonwritable_loads phdr_table))\<rparr>
       \<and> (ret2 = 0 \<and> n = length (nonwritable_loads phdr_table)
             \<and> (\<forall>i < n. granted E w (map (page_range_request load_bias 0)
                                       (nonwritable_loads phdr_table)) i)
           \<or> ret2 = - 1 \<and> 0 < n
             \<and> (\<forall>i < n - 1. granted E w (map (page_range_request load_bias 0)
                                           (nonwritable_loads phdr_table)) i)
             \<and> \<not> granted E w (map (page_range_request load_bias 0)
                                (nonwritable_loads phdr_table)) (n - 1))"
    by (rule set_load_prot_trace [OF p [unfolded phdr_table_protect_segments_def]])
  have 3: "\<forall>p. \<exists>start len.
         page_range_request load_bias PROT_WRITE p
           = Mprotect start len (PFLAGS_TO_PROT (p_flags p) OR PROT_WRITE)
         \<and> page_range_request load_bias 0 p = Mprotect start len (PFLAGS_TO_PROT (p_flags p))"
    by (simp add: page_range_request_def)
  show ?thesis
    unfolding u p Let_def using 1 2 3 by simp
qed

lemmas prot_example_defs = example_phdrs_def phdrs_shared_page_def phdrs_two_read_only_def
  example_env_def example_kernel_def refusing_kernel_def second_mprotect_refused_def
  example_process_def nonwritable_loads_def
  page_range_request_def phdr_table_unprotect_segments_def phdr_table_protect_segments_def
  request_def PFLAGS_TO_PROT_def MAYBE_MAP_FLAG_def PT_LOAD_def PF_R_def PF_W_def PF_X_def
  PROT_READ_def PROT_WRITE_def PROT_EXEC_def PAGE_END_def PAGE_START_def PAGE_MASK_def
  PAGE_SIZE_def

text \<open>
  On the example image at \<open>0x70000000\<close>: one request, for the executable segment, with
  protection 7 to unprotect and 5 to protect. On the table with two read-only segments:
  both requests are made when the kernel grants them, and the result is 0; when the
  kernel refuses the second one both are made and the result is -1; when it refuses the
  first one the second is not made.
\<close>

theorem set_load_protection_witness:
  "phdr_table_unprotect_segments example_env example_phdrs 0x6FFD0000 example_process
     = (0, example_process\<lparr>trace := [Mprotect 0x70000000 0x4000 7]\<rparr>)
   \<and> phdr_table_protect_segments example_env example_phdrs 0x6FFD0000 example_process
     = (0, example_process\<lparr>trace := [Mprotect 0x70000000 0x4000 5]\<rparr>)
   \<and> phdr_table_unprotect_segments example_env phdrs_two_read_only 0x70000000 example_process
     = (0, example_process\<lparr>trace := [Mprotect 0x70000000 0x1000 7,
                                         Mprotect 0x70002000 0x1000 3]\<rparr>)
   \<and> phdr_table_protect_segments example_env phdrs_two_read_only 0x70000000 example_process
     = (0, example_process\<lparr>trace := [Mprotect 0x70000000 0x1000 5,
                                         Mprotect 0x70002000 0x1000 1]\<rparr>)
   \<and> phdr_table_protect_segments (example_env\<lparr>kernel := second_mprotect_refused\<rparr>)
        phdrs_two_read_only 0x70000000 example_process
     = (- 1, example_process\<lparr>trace := [Mprotect 0x70000000 0x1000 5,
                                           Mprotect 0x70002000 0x1000 1]\<rparr>)
   \<and> phdr_table_protect_segments (example_env\<lparr>kernel := refusing_kernel\<rparr>)
        phdrs_two_read_only 0x70000000 example_process
     = (- 1, example_process\<lparr>trace := [Mprotect 0x70000000 0x1000 5]\<rparr>)"
  using set_load_protection [where E = example_env and phdr_table = example_phdrs
      and load_bias = "0x6FFD0000" and w = example_process]
    set_load_protection [where E = example_env and phdr_table = phdrs_two_read_only
      and load_bias = "0x70000000" and w = example_process]
    set_load_protection [where E = "example_env\<lparr>kernel := second_mprotect_refused\<rparr>"
      and phdr_table = phdrs_two_read_only and load_bias = "0x70000000" and w = example_process]
    set_load_protection [where E = "example_env\<lparr>kernel := refusing_kernel\<rparr>"
      and phdr_table = phdrs_two_read_only and load_bias = "0x70000000" and w = example_process]
  by (simp add: prot_example_defs)

text \<open>
  Claim C9 as worded says that no protection change is issued for the pages of a writable
  LOAD entry. In \<open>phdrs_shared_page\<close> the writable segment starts at \<open>0x1800\<close>, in the
  second page of the executable segment: the one request of \<open>protect_segments\<close> covers
  \<open>[0x70000000, 0x70002000)\<close>, and the writable segment's first byte lies in it.
\<close>

theorem set_load_protection_counterexample:
  "p_type (phdrs_shared_page ! 1) = PT_LOAD \<and> p_flags (phdrs_shared_page ! 1) AND PF_W \<noteq> 0
   \<and> phdr_table_protect_segments example_env phdrs_shared_page 0x70000000 example_process
       = (0, example_process\<lparr>trace := [Mprotect 0x70000000 0x2000 5]\<rparr>)
   \<and> (0x70000000 :: 32 word) \<le> p_vaddr (phdrs_shared_page ! 1) + 0x70000000
   \<and> p_vaddr (phdrs_shared_page ! 1) + 0x70000000 < (0x70000000 :: 32 word) + 0x2000"
  by (simp add: prot_example_defs)

subsection \<open>Claim C8: sharing relro pages\<close>

text \<open>
  Claim C8: a relro page is replaced by a mapping of the relro file only when it holds the
  bytes of the file page in question. The comparison is made against the file at
  \<open>file_offset + match_offset\<close>, but the mapping is made at file offset
  \<open>match_offset\<close>: in a table with two relro segments the page of the second segment is
  compared with the file page at \<open>0x1000\<close>, which it equals, and is then replaced by the
  file page at 0, which it does not equal.
\<close>

theorem map_gnu_relro_second_segment:
  "phdr_table_map_gnu_relro relro_env relro_phdrs 0x40000000 5 example_process =
     (0, example_process
           \<lparr>trace := [Fstat 5,
                      Mmap 0 0x2000 PROT_READ MAP_PRIVATE 5 0,
                      Mmap 0x40001000 0x1000 PROT_READ (MAP_PRIVATE OR MAP_FIXED) 5 0,
                      Mmap 0x40003000 0x1000 PROT_READ (MAP_PRIVATE OR MAP_FIXED) 5 0,
                      Munmap 0x70000000 0x2000]\<rparr>)
   \<and> same_page relro_env 0x40003000 0x1000
   \<and> \<not> same_page relro_env 0x40003000 0"
  by (simp add: phdr_table_map_gnu_relro_def relro_scan.simps skip_dissimilar.simps
      count_similar.simps request_def relro_env_def relro_phdrs_def example_env_def
      example_kernel_def example_process_def PT_GNU_RELRO_def PAGE_END_def PAGE_START_def
      PAGE_MASK_def PAGE_SIZE_def Let_def)

subsection \<open>Claim C10: \<open>get_string\<close>\<close>

lemma unat_ucast_index:
  "32 \<le> LENGTH('a::len) \<Longrightarrow> unat (ucast (index :: 32 word) :: 'a word) = unat index"
proof -
  assume a: "32 \<le> LENGTH('a)"
  have "unat index < 2 ^ 32" using unsigned_less [of index] by simp
  also have "(2::nat) ^ 32 \<le> 2 ^ LENGTH('a)" using a by (intro power_increasing) simp_all
  finally show ?thesis by (simp add: unsigned_ucast_eq take_bit_nat_eq_self)
qed

text \<open>
  Claim C10. On a build whose pointers have at least 32 bits: when the string table is
  loaded (\<open>strtab_\<close> is not null) and \<open>index\<close> is strictly less than its size,
  \<open>get_string\<close> returns \<open>strtab_ + index\<close>; in every other case the process aborts;
  so a pointer that is returned lies less than the table's size past \<open>strtab_\<close>.
\<close>

theorem get_string_checked:
  fixes r :: "'a::len ElfReader"
  assumes "32 \<le> LENGTH('a)"
  shows "(m_strtab r \<noteq> 0 \<and> unat index < unat (m_strtab_size r) \<longrightarrow>
            get_string r index = Return (m_strtab r + ucast index))
         \<and> (\<not> (m_strtab r \<noteq> 0 \<and> unat index < unat (m_strtab_size r)) \<longrightarrow>
              get_string r index = Abort)
         \<and> (\<forall>p. get_string r index = Return p \<longrightarrow>
              unat (p - m_strtab r) < unat (m_strtab_size r))"
  by (auto simp add: get_string_def CHECK_def word_less_nat_alt unat_ucast_index [OF assms]
      split: if_splits)

text \<open>
  With a table of 64 bytes at \<open>0x60005000\<close>: index 63 is answered, index 64 aborts, and
  so does any index while no table is loaded.
\<close>

theorem get_string_checked_witness:
  "get_string (example_reader\<lparr>m_strtab := 0x60005000, m_strtab_size := 0x40\<rparr>) 0x3f
     = Return 0x6000503f
   \<and> get_string (example_reader\<lparr>m_strtab := 0x60005000, m_strtab_size := 0x40\<rparr>) 0x40 = Abort
   \<and> get_string example_reader 0 = Abort"
  using get_string_checked [of "example_reader\<lparr>m_strtab := 0x60005000, m_strtab_size := 0x40\<rparr>" "0x3f"]
    get_string_checked [of "example_reader\<lparr>m_strtab := 0x60005000, m_strtab_size := 0x40\<rparr>" "0x40"]
    get_string_checked [of example_reader 0]
  by (simp add: example_reader_def)

end
